theory Spec2Isabelle
  imports Main "HOL-Library.Word"
begin

section \<open>Blobfs: status codes, on-disk records, in-memory objects\<close>

text \<open>
  A shallow embedding of \<^verbatim>\<open>system/ulib/blobfs/blobfs.cpp\<close>. Every function of that file
  that is modelled keeps its name. The collaborators whose code is elsewhere (the
  allocator, the node populator, the iterators, the Merkle engine, the compressor, the
  writeback queue, kernel objects and the block device) are either parameters collected
  in the record \<open>env\<close>, or small definitions whose comment starts with
  \<open>Modelled from the spec:\<close>.
\<close>

datatype zx_status =
    ZX_OK
  | ZX_ERR_INTERNAL
  | ZX_ERR_NOT_SUPPORTED
  | ZX_ERR_NO_MEMORY
  | ZX_ERR_INVALID_ARGS
  | ZX_ERR_BAD_HANDLE
  | ZX_ERR_OUT_OF_RANGE
  | ZX_ERR_BAD_STATE
  | ZX_ERR_NOT_FOUND
  | ZX_ERR_ALREADY_EXISTS
  | ZX_ERR_UNAVAILABLE
  | ZX_ERR_IO
  | ZX_ERR_IO_DATA_INTEGRITY
  | ZX_ERR_NO_SPACE

datatype blob_state =
    kBlobStateEmpty
  | kBlobStateDataWrite
  | kBlobStateReadable
  | kBlobStatePurged
  | kBlobStateError

type_synonym byte = "8 word"
type_synonym bytes = "byte list"
type_synonym digest = "byte list"

text \<open>An extent is a run of \<open>Length\<close> data blocks starting at block \<open>Start\<close>.\<close>

record Extent =
  Start :: nat
  Length :: nat

text \<open>
  A slot of the node table. The header flags word is kept as its three named bits
  (\<open>kBlobFlagAllocated\<close>, \<open>kBlobFlagExtentContainer\<close>, \<open>kBlobFlagLZ4Compressed\<close>).
\<close>

record Inode =
  IsAllocated :: bool
  IsExtentContainer :: bool
  LZ4Compressed :: bool
  next_node :: nat
  merkle_root_hash :: digest
  blob_size :: nat
  block_count :: nat
  extent_count :: nat
  extents :: "Extent list"

text \<open>The superblock fields the modelled functions touch; all are \<open>uint64_t\<close>.\<close>

record Superblock =
  inode_count :: "64 word"
  data_block_count :: "64 word"
  alloc_block_count :: "64 word"
  alloc_inode_count :: "64 word"

text \<open>The buffers a write request can name.\<close>

datatype vmo_ref = BlobVmo | CompressedVmo | BlockMapVmo | NodeMapVmo | InfoVmo

text \<open>One request of a transaction: \<open>(vmo, vmo block, device block, length)\<close>.\<close>

record request =
  req_vmo :: vmo_ref
  relative_block :: nat
  absolute_block :: nat
  nblocks :: nat

text \<open>
  A \<open>WritebackWork\<close>: its requests in order, whether \<open>SetSyncComplete\<close> was called,
  and the status of a \<open>Reset\<close> if there was one.
\<close>

record WritebackWork =
  requests :: "request list"
  sync_complete :: bool
  reset_status :: "zx_status option"

record WritebackQueue =
  capacity :: nat
  queued :: "WritebackWork list"

record Compressor =
  Compressing :: bool
  Size :: nat

record WritebackInfo =
  bytes_written :: nat
  wi_extents :: "Extent list"
  node_indices :: "nat list"
  compressor :: Compressor
  compressed_blob :: "bytes option"

record VnodeBlob =
  m_digest :: digest
  GetState :: blob_state
  DeletionQueued :: bool
  m_syncing :: bool
  m_inode :: Inode
  m_map_index :: nat
  m_mapping :: "bytes option"
  m_readable_event :: "bool option"
  m_write_info :: "WritebackInfo option"
  clone_watcher_object :: bool
  m_clone_ref :: bool
  ref_count :: nat

record Allocator =
  block_map :: "bool list"
  node_map :: "Inode list"

datatype CachePolicy = EvictImmediately | NeverEvict

record Blobfs =
  m_info :: Superblock
  m_allocator :: Allocator
  m_writeback :: "WritebackQueue option"
  m_journal :: "WritebackWork list option"
  m_open_hash :: "(digest \<times> VnodeBlob) list"
  m_closed_hash :: "(digest \<times> VnodeBlob) list"
  m_cache_policy :: CachePolicy

text \<open>
  What the file takes from outside: the constants of \<^verbatim>\<open>format.h\<close>, the hash behind the
  Merkle engine, the results of kernel calls and of the block device, and the
  compressor's output sizes.
\<close>

record env =
  kBlobfsBlockSize :: nat
  kCompressionMinBytesSaved :: nat
  kMaxBlobExtents :: nat
  kInlineMaxExtents :: nat
  kContainerMaxExtents :: nat
  GetTreeLength :: "nat \<Rightarrow> nat"
  merkle_tree :: "bytes \<Rightarrow> bytes"
  merkle_root :: "bytes \<Rightarrow> digest"
  DataStartBlock :: "Superblock \<Rightarrow> nat"
  BlockMapStartBlock :: "Superblock \<Rightarrow> nat"
  NodeMapStartBlock :: "Superblock \<Rightarrow> nat"
  kBlobfsInodeSize :: nat
  kBlobfsBlockBits :: nat
  CreateAndMap :: "vmo_ref \<Rightarrow> nat \<Rightarrow> zx_status"
  vmo_duplicate :: "vmo_ref \<Rightarrow> zx_status"
  ioctl_block_attach_vmo :: "vmo_ref \<Rightarrow> zx_status"
  device_block :: "nat \<Rightarrow> bytes"
  Transact :: "request list \<Rightarrow> zx_status"
  Decompress :: "bytes \<Rightarrow> nat \<Rightarrow> zx_status \<times> bytes"
  vmo_clone :: zx_status
  replace_as_executable :: zx_status
  handle_replace :: zx_status
  event_signal :: zx_status
  BufferMax :: "nat \<Rightarrow> nat"
  compressor_Initialize :: zx_status
  compressor_Update :: "nat \<Rightarrow> bytes \<Rightarrow> zx_status \<times> nat"
  compressor_End :: "nat \<Rightarrow> zx_status \<times> nat"
  ReserveBlocks :: "Allocator \<Rightarrow> nat \<Rightarrow> zx_status + Extent list"
  ReserveNodes :: "Allocator \<Rightarrow> nat \<Rightarrow> zx_status + nat list"
  writeback_Enqueue :: "WritebackWork \<Rightarrow> zx_status"
  journal_Enqueue :: "WritebackWork \<Rightarrow> zx_status"
  new_VnodeBlob :: bool

section \<open>Buffers\<close>

text \<open>\<open>fbl::round_up(x, m)\<close>: the least multiple of \<open>m\<close> that is at least \<open>x\<close>.\<close>

definition round_up :: "nat \<Rightarrow> nat \<Rightarrow> nat" where
  "round_up x m = ((x + m - 1) div m) * m"

text \<open>\<open>a + b\<close> and \<open>a - b\<close> on \<open>uint64_t\<close>: both wrap.\<close>

definition add_u64 :: "nat \<Rightarrow> nat \<Rightarrow> nat" where
  "add_u64 a b = (a + b) mod 2 ^ 64"

definition sub_u64 :: "nat \<Rightarrow> nat \<Rightarrow> nat" where
  "sub_u64 a b = (a + 2 ^ 64 - b mod 2 ^ 64) mod 2 ^ 64"

text \<open>Overwrite \<open>buf\<close> from byte \<open>off\<close> with \<open>src\<close>; the buffer keeps its length.\<close>

definition blit :: "'a list \<Rightarrow> nat \<Rightarrow> 'a list \<Rightarrow> 'a list" where
  "blit buf off src = take (length buf) (take off buf @ src @ drop (off + length src) buf)"

text \<open>
  Modelled from the spec: the kernel's \<open>vmo.write\<close> and \<open>vmo.read\<close> (the data buffer is
  a zero-initialised byte array of fixed size; an access past its end fails).
\<close>

definition vmo_write :: "bytes option \<Rightarrow> bytes \<Rightarrow> nat \<Rightarrow> nat \<Rightarrow> zx_status \<times> bytes option" where
  "vmo_write vmo data offset len =
     (case vmo of
        None \<Rightarrow> (ZX_ERR_BAD_HANDLE, None)
      | Some m \<Rightarrow>
          if offset + len \<le> length m
          then (ZX_OK, Some (blit m offset (take len data)))
          else (ZX_ERR_OUT_OF_RANGE, Some m))"

definition vmo_read :: "bytes option \<Rightarrow> nat \<Rightarrow> nat \<Rightarrow> zx_status \<times> bytes" where
  "vmo_read vmo offset len =
     (case vmo of
        None \<Rightarrow> (ZX_ERR_BAD_HANDLE, [])
      | Some m \<Rightarrow>
          if offset + len \<le> length m
          then (ZX_OK, take len (drop offset m))
          else (ZX_ERR_OUT_OF_RANGE, []))"

section \<open>Merkle engine and block counts\<close>

text \<open>
  Modelled from the spec: \<open>BlobDataBlocks\<close> and \<open>MerkleTreeBlocks\<close> of \<^verbatim>\<open>format.h\<close>
  (\<open>ceil(n/block)\<close> data blocks, and the blocks of a tree of \<open>tree_length(n)\<close> bytes).
\<close>

definition BlobDataBlocks :: "env \<Rightarrow> Inode \<Rightarrow> nat" where
  "BlobDataBlocks e i = round_up (blob_size i) (kBlobfsBlockSize e) div kBlobfsBlockSize e"

definition MerkleTreeBlocks :: "env \<Rightarrow> Inode \<Rightarrow> nat" where
  "MerkleTreeBlocks e i =
     round_up (GetTreeLength e (blob_size i)) (kBlobfsBlockSize e) div kBlobfsBlockSize e"

text \<open>
  Modelled from the spec: \<open>MerkleTree::Create\<close> returns the tree and the root digest of
  the data; \<open>MerkleTree::Verify\<close> answers ok or integrity error, ok exactly when the
  tree and the root digest are those of the data. The hash itself is \<open>merkle_tree\<close> and
  \<open>merkle_root\<close> of \<open>env\<close>.
\<close>

definition MerkleTree_Create :: "env \<Rightarrow> bytes \<Rightarrow> nat \<Rightarrow> zx_status \<times> bytes \<times> digest" where
  "MerkleTree_Create e data data_len =
     (ZX_OK, merkle_tree e (take data_len data), merkle_root e (take data_len data))"

definition MerkleTree_Verify :: "env \<Rightarrow> bytes \<Rightarrow> nat \<Rightarrow> bytes \<Rightarrow> nat \<Rightarrow> digest \<Rightarrow> zx_status" where
  "MerkleTree_Verify e data data_len tree tree_len root =
     (if take tree_len tree = merkle_tree e (take data_len data)
         \<and> merkle_root e (take data_len data) = root
      then ZX_OK else ZX_ERR_IO_DATA_INTEGRITY)"

definition GetMerkle :: "VnodeBlob \<Rightarrow> bytes" where
  "GetMerkle vn = (case m_mapping vn of None \<Rightarrow> [] | Some m \<Rightarrow> m)"

definition GetData :: "env \<Rightarrow> VnodeBlob \<Rightarrow> bytes" where
  "GetData e vn =
     (case m_mapping vn of
        None \<Rightarrow> []
      | Some m \<Rightarrow> drop (MerkleTreeBlocks e (m_inode vn) * kBlobfsBlockSize e) m)"

definition Verify :: "env \<Rightarrow> VnodeBlob \<Rightarrow> zx_status" where
  "Verify e vn =
     (let data = (if blob_size (m_inode vn) \<noteq> 0 then GetData e vn else []);
          tree = (if blob_size (m_inode vn) \<noteq> 0 then GetMerkle vn else []);
          data_size = blob_size (m_inode vn);
          merkle_size = GetTreeLength e data_size
      in MerkleTree_Verify e data data_size tree merkle_size (m_digest vn))"


section \<open>Extent and block iterators\<close>

text \<open>
  Modelled from the spec: \<open>AllocatedExtentIterator\<close> yields the extents of a blob by
  walking the primary inode, then the chain of containers after it;
  \<open>VectorExtentIterator\<close> yields the extents of a list. Both are kept as the list of
  extents still to come.
\<close>

fun chain_extents :: "env \<Rightarrow> Inode list \<Rightarrow> nat \<Rightarrow> nat \<Rightarrow> nat \<Rightarrow> Extent list" where
  "chain_extents e nm node local_index 0 = []"
| "chain_extents e nm node local_index (Suc k) =
     (if node < length nm then
        (let n = nm ! node;
             cap = (if IsExtentContainer n then kContainerMaxExtents e else kInlineMaxExtents e)
         in if local_index < cap \<and> local_index < length (extents n)
            then (extents n ! local_index) # chain_extents e nm node (Suc local_index) k
            else if next_node n < length nm \<and> extents (nm ! next_node n) \<noteq> []
            then hd (extents (nm ! next_node n)) # chain_extents e nm (next_node n) 1 k
            else [])
      else [])"

definition AllocatedExtentIterator :: "env \<Rightarrow> Allocator \<Rightarrow> nat \<Rightarrow> Extent list" where
  "AllocatedExtentIterator e a node_index =
     (if node_index < length (node_map a)
      then chain_extents e (node_map a) node_index 0 (extent_count (node_map a ! node_index))
      else [])"

text \<open>
  Modelled from the spec: \<open>BlockIterator\<close> flattens extents into runs of device blocks
  and counts the blocks it has passed.
\<close>

record BlockIterator =
  it_extents :: "Extent list"
  BlockIndex :: nat

definition new_BlockIterator :: "Extent list \<Rightarrow> BlockIterator" where
  "new_BlockIterator xs = \<lparr>it_extents = xs, BlockIndex = 0\<rparr>"

text \<open>
  Modelled from the spec: \<open>StreamBlocks(iter, n, stream)\<close> calls
  \<open>stream(vmo_offset, device_offset, length)\<close> for each contiguous run covering the next
  \<open>n\<close> blocks, splitting a run at the end of its extent, and stops at the first status
  that is not \<open>ZX_OK\<close>. When the extents end before \<open>n\<close> blocks, the status is taken to
  be \<open>ZX_ERR_IO_DATA_INTEGRITY\<close>. The callback works on a state \<open>'s\<close>; it answers
  \<open>None\<close> when it does not return.
\<close>

function StreamBlocks ::
  "BlockIterator \<Rightarrow> nat \<Rightarrow> (nat \<Rightarrow> nat \<Rightarrow> nat \<Rightarrow> 's \<Rightarrow> (zx_status \<times> 's) option) \<Rightarrow> 's
     \<Rightarrow> (zx_status \<times> BlockIterator \<times> 's) option" where
  "StreamBlocks it n stream s =
     (if n = 0 then Some (ZX_OK, it, s)
      else (case it_extents it of
          [] \<Rightarrow> Some (ZX_ERR_IO_DATA_INTEGRITY, it, s)
        | x # xs \<Rightarrow>
            if Length x = 0 then StreamBlocks (it\<lparr>it_extents := xs\<rparr>) n stream s
            else if Length x \<le> n then
              (case stream (BlockIndex it) (Start x) (Length x) s of
                 None \<Rightarrow> None
               | Some (status, s') \<Rightarrow>
                   if status \<noteq> ZX_OK
                   then Some (status, it\<lparr>it_extents := xs, BlockIndex := BlockIndex it + Length x\<rparr>, s')
                   else StreamBlocks (it\<lparr>it_extents := xs, BlockIndex := BlockIndex it + Length x\<rparr>)
                          (n - Length x) stream s')
            else
              (case stream (BlockIndex it) (Start x) n s of
                 None \<Rightarrow> None
               | Some (status, s') \<Rightarrow>
                   Some (status,
                     it\<lparr>it_extents := \<lparr>Start = Start x + n, Length = Length x - n\<rparr> # xs,
                        BlockIndex := BlockIndex it + n\<rparr>, s'))))"
  by pat_completeness auto
termination
  by (relation "measure (\<lambda>(it, n, stream, s). n + length (it_extents it))") auto

declare StreamBlocks.simps [simp del]

section \<open>Readback\<close>

definition BlobCloseHandles :: "VnodeBlob \<Rightarrow> VnodeBlob" where
  "BlobCloseHandles vn = vn\<lparr>m_mapping := None, m_readable_event := None\<rparr>"

definition AttachVmo :: "env \<Rightarrow> vmo_ref \<Rightarrow> zx_status" where
  "AttachVmo e v =
     (if vmo_duplicate e v \<noteq> ZX_OK then vmo_duplicate e v
      else if ioctl_block_attach_vmo e v \<noteq> ZX_OK then ioctl_block_attach_vmo e v
      else ZX_OK)"

text \<open>
  A read transaction: the requests are collected, \<open>Transact\<close> answers with a status,
  and on \<open>ZX_OK\<close> every request has copied its device blocks into its buffer.
\<close>

definition read_blocks :: "env \<Rightarrow> vmo_ref \<Rightarrow> request list \<Rightarrow> bytes \<Rightarrow> bytes" where
  "read_blocks e v reqs buf =
     foldl (\<lambda>b r. if req_vmo r = v
                   then blit b (relative_block r * kBlobfsBlockSize e)
                          (concat (map (device_block e)
                             [absolute_block r ..< absolute_block r + nblocks r]))
                   else b) buf reqs"

definition txn_Enqueue :: "vmo_ref \<Rightarrow> nat \<Rightarrow> nat \<Rightarrow> nat \<Rightarrow> request list \<Rightarrow> request list" where
  "txn_Enqueue v vmo_offset dev_offset len txn =
     txn @ [\<lparr>req_vmo = v, relative_block = vmo_offset, absolute_block = dev_offset, nblocks = len\<rparr>]"

text \<open>
  \<open>InitCompressed\<close>, lines 236 to 298: the Merkle blocks are read into the blob's
  buffer and the compressed blocks into a buffer of their own. The answer is the
  status, the compressed buffer and the vnode.
\<close>

definition InitCompressed_read ::
  "env \<Rightarrow> Blobfs \<Rightarrow> VnodeBlob \<Rightarrow> (zx_status \<times> bytes \<times> VnodeBlob) option" where
  "InitCompressed_read e bs vn =
     (let merkle_blocks = MerkleTreeBlocks e (m_inode vn);
          compressed_blocks = (block_count (m_inode vn) + 2 ^ 32 - merkle_blocks mod 2 ^ 32) mod 2 ^ 32;
          compressed_size = compressed_blocks * kBlobfsBlockSize e
      in if 2 ^ 64 \<le> compressed_size then Some (ZX_ERR_OUT_OF_RANGE, [], vn)
         else if CreateAndMap e CompressedVmo compressed_size \<noteq> ZX_OK
         then Some (CreateAndMap e CompressedVmo compressed_size, [], vn)
         else if AttachVmo e CompressedVmo \<noteq> ZX_OK then Some (AttachVmo e CompressedVmo, [], vn)
         else
           (let kDataStart = DataStartBlock e (m_info bs);
                block_iter = new_BlockIterator
                  (AllocatedExtentIterator e (m_allocator bs) (m_map_index vn))
            in case StreamBlocks block_iter merkle_blocks
                      (\<lambda>vmo_offset dev_offset len txn.
                          Some (ZX_OK, txn_Enqueue BlobVmo vmo_offset (add_u64 dev_offset kDataStart) len txn))
                      [] of
                 None \<Rightarrow> None
               | Some (status, block_iter1, txn1) \<Rightarrow>
                   if status \<noteq> ZX_OK then Some (status, [], vn)
                   else
                     (case StreamBlocks block_iter1 compressed_blocks
                             (\<lambda>vmo_offset dev_offset len txn.
                                 Some (ZX_OK, txn_Enqueue CompressedVmo (sub_u64 vmo_offset merkle_blocks)
                                                 (add_u64 dev_offset kDataStart) len txn))
                             txn1 of
                        None \<Rightarrow> None
                      | Some (status2, block_iter2, txn2) \<Rightarrow>
                          if status2 \<noteq> ZX_OK then Some (status2, [], vn)
                          else if Transact e txn2 \<noteq> ZX_OK then Some (Transact e txn2, [], vn)
                          else Some (ZX_OK,
                                 read_blocks e CompressedVmo txn2 (replicate compressed_size 0),
                                 vn\<lparr>m_mapping :=
                                      map_option (read_blocks e BlobVmo txn2) (m_mapping vn)\<rparr>))))"

text \<open>
  \<open>InitCompressed\<close>, lines 303 to 318: the compressed buffer is decompressed into the
  data region of the blob's buffer, \<open>target_size\<close> going in as \<open>blob_size\<close> and coming
  out as the number of bytes produced. The decompressor writes into the buffer before
  its status and the length are looked at, so the bytes it has produced are in the
  buffer on the two failures as well.
\<close>

definition InitCompressed :: "env \<Rightarrow> Blobfs \<Rightarrow> VnodeBlob \<Rightarrow> (zx_status \<times> VnodeBlob) option" where
  "InitCompressed e bs vn =
     (case InitCompressed_read e bs vn of
        None \<Rightarrow> None
      | Some (status, compressed, vn1) \<Rightarrow>
          if status \<noteq> ZX_OK then Some (status, vn1)
          else
            (case Decompress e compressed (blob_size (m_inode vn)) of
               (status3, out) \<Rightarrow>
                 (let vn2 = vn1\<lparr>m_mapping :=
                              map_option
                                (\<lambda>m. blit m (MerkleTreeBlocks e (m_inode vn) * kBlobfsBlockSize e) out)
                                (m_mapping vn1)\<rparr>
                  in if status3 \<noteq> ZX_OK then Some (status3, vn2)
                     else if length out \<noteq> blob_size (m_inode vn)
                     then Some (ZX_ERR_IO_DATA_INTEGRITY, vn2)
                     else Some (ZX_OK, vn2))))"

definition InitUncompressed :: "env \<Rightarrow> Blobfs \<Rightarrow> VnodeBlob \<Rightarrow> (zx_status \<times> VnodeBlob) option" where
  "InitUncompressed e bs vn =
     (let block_iter = new_BlockIterator
            (AllocatedExtentIterator e (m_allocator bs) (m_map_index vn));
          blob_data_blocks = BlobDataBlocks e (m_inode vn);
          merkle_blocks = MerkleTreeBlocks e (m_inode vn)
      in if 2 ^ 32 - 1 < blob_data_blocks + merkle_blocks then Some (ZX_ERR_IO_DATA_INTEGRITY, vn)
         else
           (let len = blob_data_blocks + merkle_blocks;
                data_start = DataStartBlock e (m_info bs)
            in case StreamBlocks block_iter len
                      (\<lambda>vmo_offset dev_offset len txn.
                          Some (ZX_OK, txn_Enqueue BlobVmo vmo_offset (add_u64 dev_offset data_start) len txn))
                      [] of
                 None \<Rightarrow> None
               | Some (status, block_iter1, txn1) \<Rightarrow>
                   if status \<noteq> ZX_OK then Some (status, vn)
                   else if Transact e txn1 \<noteq> ZX_OK then Some (Transact e txn1, vn)
                   else Some (ZX_OK,
                          vn\<lparr>m_mapping := map_option (read_blocks e BlobVmo txn1) (m_mapping vn)\<rparr>)))"

text \<open>
  \<open>InitVmos\<close>: every return after the \<open>cleanup\<close> guard is armed and before it is
  cancelled runs \<open>BlobCloseHandles\<close>.
\<close>

definition InitVmos :: "env \<Rightarrow> Blobfs \<Rightarrow> VnodeBlob \<Rightarrow> (zx_status \<times> VnodeBlob) option" where
  "InitVmos e bs vn =
     (if m_mapping vn \<noteq> None then Some (ZX_OK, vn)
      else
        (let data_blocks = BlobDataBlocks e (m_inode vn);
             merkle_blocks = MerkleTreeBlocks e (m_inode vn);
             num_blocks = data_blocks + merkle_blocks
         in if num_blocks = 0 then Some (ZX_OK, vn)
            else if 2 ^ 64 \<le> num_blocks * kBlobfsBlockSize e
            then Some (ZX_ERR_OUT_OF_RANGE, BlobCloseHandles vn)
            else if CreateAndMap e BlobVmo (num_blocks * kBlobfsBlockSize e) \<noteq> ZX_OK
            then Some (CreateAndMap e BlobVmo (num_blocks * kBlobfsBlockSize e), BlobCloseHandles vn)
            else
              (let vn1 = vn\<lparr>m_mapping := Some (replicate (num_blocks * kBlobfsBlockSize e) 0)\<rparr>
               in if AttachVmo e BlobVmo \<noteq> ZX_OK
                  then Some (AttachVmo e BlobVmo, BlobCloseHandles vn1)
                  else
                    (case (if LZ4Compressed (m_inode vn1)
                           then InitCompressed e bs vn1 else InitUncompressed e bs vn1) of
                       None \<Rightarrow> None
                     | Some (status, vn2) \<Rightarrow>
                         if status \<noteq> ZX_OK then Some (status, BlobCloseHandles vn2)
                         else if Verify e vn2 \<noteq> ZX_OK
                         then Some (Verify e vn2, BlobCloseHandles vn2)
                         else Some (ZX_OK, vn2)))))"

text \<open>
  \<open>ReadInternal\<close> answers \<open>(status, actual, bytes copied out, vnode)\<close>; \<open>actual\<close> is
  \<open>None\<close> where the code leaves \<open>*actual\<close> unwritten.
\<close>

definition ReadInternal ::
  "env \<Rightarrow> Blobfs \<Rightarrow> VnodeBlob \<Rightarrow> nat \<Rightarrow> nat \<Rightarrow> (zx_status \<times> nat option \<times> bytes \<times> VnodeBlob) option" where
  "ReadInternal e bs vn len off =
     (if GetState vn \<noteq> kBlobStateReadable then Some (ZX_ERR_BAD_STATE, None, [], vn)
      else if blob_size (m_inode vn) = 0 then Some (ZX_OK, Some 0, [], vn)
      else
        (case InitVmos e bs vn of
           None \<Rightarrow> None
         | Some (status, vn1) \<Rightarrow>
             if status \<noteq> ZX_OK then Some (status, None, [], vn1)
             else if blob_size (m_inode vn1) \<le> off then Some (ZX_OK, Some 0, [], vn1)
             else
               (let len1 = (if blob_size (m_inode vn1) - off < len
                            then blob_size (m_inode vn1) - off else len);
                    merkle_bytes = MerkleTreeBlocks e (m_inode vn1) * kBlobfsBlockSize e
                in case vmo_read (m_mapping vn1) (merkle_bytes + off) len1 of
                     (status1, data) \<Rightarrow>
                       if status1 = ZX_OK then Some (ZX_OK, Some len1, data, vn1)
                       else Some (status1, None, [], vn1))))"

text \<open>
  \<open>CloneVmo\<close> answers \<open>(status, whether a handle was returned, vnode)\<close>. The first
  clone arms the watcher and keeps a reference to the vnode in \<open>clone_ref_\<close>, which
  counts as every other reference does.
\<close>

definition CloneVmo :: "env \<Rightarrow> Blobfs \<Rightarrow> VnodeBlob \<Rightarrow> (zx_status \<times> bool \<times> VnodeBlob) option" where
  "CloneVmo e bs vn =
     (if GetState vn \<noteq> kBlobStateReadable then Some (ZX_ERR_BAD_STATE, False, vn)
      else if blob_size (m_inode vn) = 0 then Some (ZX_ERR_BAD_STATE, False, vn)
      else
        (case InitVmos e bs vn of
           None \<Rightarrow> None
         | Some (status, vn1) \<Rightarrow>
             if status \<noteq> ZX_OK then Some (status, False, vn1)
             else if vmo_clone e \<noteq> ZX_OK then Some (vmo_clone e, False, vn1)
             else if replace_as_executable e \<noteq> ZX_OK then Some (replace_as_executable e, False, vn1)
             else if handle_replace e \<noteq> ZX_OK then Some (handle_replace e, False, vn1)
             else if \<not> clone_watcher_object vn1
             then Some (ZX_OK, True,
                        vn1\<lparr>clone_watcher_object := True, m_clone_ref := True,
                            ref_count := ref_count vn1 + 1\<rparr>)
             else Some (ZX_OK, True, vn1)))"


section \<open>Work items, writeback and journal\<close>

datatype EnqueueType = kJournal | kData

definition new_WritebackWork :: WritebackWork where
  "new_WritebackWork = \<lparr>requests = [], sync_complete = False, reset_status = None\<rparr>"

text \<open>
  Modelled from the spec: a work item is an ordered list of writes, so
  \<open>WritebackWork::Enqueue\<close> appends one; its size is the sum of their lengths.
\<close>

definition wb_Enqueue :: "vmo_ref \<Rightarrow> nat \<Rightarrow> nat \<Rightarrow> nat \<Rightarrow> WritebackWork \<Rightarrow> WritebackWork" where
  "wb_Enqueue v relative absolute n work =
     work\<lparr>requests := requests work @
       [\<lparr>req_vmo = v, relative_block = relative, absolute_block = absolute, nblocks = n\<rparr>]\<rparr>"

definition BlkCount :: "WritebackWork \<Rightarrow> nat" where
  "BlkCount work = sum_list (map nblocks (requests work))"

definition CreateWork :: "Blobfs \<Rightarrow> zx_status + WritebackWork" where
  "CreateWork bs =
     (if m_writeback bs = None then Inl ZX_ERR_BAD_STATE else Inr new_WritebackWork)"

text \<open>
  Modelled from the spec: the writeback queue and the journal are FIFO queues of work
  items; \<open>Enqueue\<close> answers with a status (\<open>writeback_Enqueue\<close>, \<open>journal_Enqueue\<close> of
  \<open>env\<close>) and on \<open>ZX_OK\<close> the item is at the end of the queue.
\<close>

definition WritebackQueue_Enqueue :: "env \<Rightarrow> WritebackQueue \<Rightarrow> WritebackWork \<Rightarrow> zx_status \<times> WritebackQueue" where
  "WritebackQueue_Enqueue e q work =
     (if writeback_Enqueue e work = ZX_OK then (ZX_OK, q\<lparr>queued := queued q @ [work]\<rparr>)
      else (writeback_Enqueue e work, q))"

definition Journal_Enqueue :: "env \<Rightarrow> WritebackWork list \<Rightarrow> WritebackWork \<Rightarrow> zx_status \<times> WritebackWork list" where
  "Journal_Enqueue e j work =
     (if journal_Enqueue e work = ZX_OK then (ZX_OK, j @ [work]) else (journal_Enqueue e work, j))"

definition EnqueueWork_data :: "env \<Rightarrow> Blobfs \<Rightarrow> WritebackWork \<Rightarrow> zx_status \<times> Blobfs" where
  "EnqueueWork_data e bs work =
     (case m_writeback bs of
        Some q \<Rightarrow>
          (case WritebackQueue_Enqueue e q work of
             (status, q') \<Rightarrow> (status, bs\<lparr>m_writeback := Some q'\<rparr>))
      | None \<Rightarrow> (ZX_ERR_BAD_STATE, bs))"

definition EnqueueWork :: "env \<Rightarrow> Blobfs \<Rightarrow> WritebackWork \<Rightarrow> EnqueueType \<Rightarrow> zx_status \<times> Blobfs" where
  "EnqueueWork e bs work type =
     (case type of
        kJournal \<Rightarrow>
          (case m_journal bs of
             Some j \<Rightarrow>
               (case Journal_Enqueue e j work of
                  (status, j') \<Rightarrow> (status, bs\<lparr>m_journal := Some j'\<rparr>))
           | None \<Rightarrow> EnqueueWork_data e bs work)
      | kData \<Rightarrow> EnqueueWork_data e bs work)"

definition WritebackCapacity :: "Blobfs \<Rightarrow> nat" where
  "WritebackCapacity bs = (case m_writeback bs of Some q \<Rightarrow> capacity q | None \<Rightarrow> 0)"

text \<open>
  The loop of \<open>EnqueuePaginated\<close>. It does not return when \<open>kMaxChunkBlocks\<close> is 0 and
  blocks remain, hence the option type. On an error the caller drops the work item, so
  its value is then of no consequence.
\<close>

partial_function (option) EnqueuePaginated_loop ::
  "env \<Rightarrow> vmo_ref \<Rightarrow> nat \<Rightarrow> WritebackWork \<Rightarrow> Blobfs \<Rightarrow> nat \<Rightarrow> nat \<Rightarrow> nat \<Rightarrow> nat
     \<Rightarrow> (zx_status \<times> WritebackWork \<times> Blobfs) option" where
  "EnqueuePaginated_loop e vmo kMaxChunkBlocks work bs relative absolute n delta_blocks =
     (if 0 < n then
        (if n - delta_blocks \<noteq> 0 then
           (case CreateWork bs of
              Inl status \<Rightarrow> Some (status, wb_Enqueue vmo relative absolute delta_blocks work, bs)
            | Inr tmp \<Rightarrow>
                (case EnqueueWork e bs (wb_Enqueue vmo relative absolute delta_blocks work) kData of
                   (status, bs1) \<Rightarrow>
                     if status \<noteq> ZX_OK
                     then Some (status, wb_Enqueue vmo relative absolute delta_blocks work, bs1)
                     else EnqueuePaginated_loop e vmo kMaxChunkBlocks tmp bs1
                            (add_u64 relative delta_blocks) (add_u64 absolute delta_blocks)
                            (n - delta_blocks) (min (n - delta_blocks) kMaxChunkBlocks)))
         else EnqueuePaginated_loop e vmo kMaxChunkBlocks
                (wb_Enqueue vmo relative absolute delta_blocks work) bs
                (add_u64 relative delta_blocks) (add_u64 absolute delta_blocks)
                (n - delta_blocks) (min (n - delta_blocks) kMaxChunkBlocks))
      else Some (ZX_OK, work, bs))"

declare EnqueuePaginated_loop.simps [code]

definition EnqueuePaginated ::
  "env \<Rightarrow> WritebackWork \<Rightarrow> Blobfs \<Rightarrow> vmo_ref \<Rightarrow> nat \<Rightarrow> nat \<Rightarrow> nat
     \<Rightarrow> (zx_status \<times> WritebackWork \<times> Blobfs) option" where
  "EnqueuePaginated e work bs vmo relative absolute n =
     (let kMaxChunkBlocks = ((3 * WritebackCapacity bs) mod 2 ^ 64) div 4
      in EnqueuePaginated_loop e vmo kMaxChunkBlocks work bs relative absolute n
           (min n kMaxChunkBlocks))"

section \<open>Allocator and accounting\<close>

text \<open>
  Modelled from the spec: the allocator's \<open>MarkBlocksAllocated\<close> and \<open>FreeBlocks\<close> set
  and clear the bits of an extent in the block bitmap, \<open>CheckBlocksAllocated(start, end)\<close>
  tells whether every block of the range is allocated, \<open>MarkInodeAllocated\<close> marks a
  node as an allocated primary inode and \<open>FreeNode\<close> clears the node's flags.
\<close>

definition set_bits :: "bool \<Rightarrow> nat \<Rightarrow> nat \<Rightarrow> bool list \<Rightarrow> bool list" where
  "set_bits v start len bm =
     map (\<lambda>(i, b). if start \<le> i \<and> i < start + len then v else b) (zip [0 ..< length bm] bm)"

definition MarkBlocksAllocated :: "Extent \<Rightarrow> Allocator \<Rightarrow> Allocator" where
  "MarkBlocksAllocated x a = a\<lparr>block_map := set_bits True (Start x) (Length x) (block_map a)\<rparr>"

definition FreeBlocks :: "Extent \<Rightarrow> Allocator \<Rightarrow> Allocator" where
  "FreeBlocks x a = a\<lparr>block_map := set_bits False (Start x) (Length x) (block_map a)\<rparr>"

definition CheckBlocksAllocated :: "Allocator \<Rightarrow> nat \<Rightarrow> nat \<Rightarrow> bool" where
  "CheckBlocksAllocated a start_block end_block =
     (end_block \<le> length (block_map a)
      \<and> list_all (\<lambda>b. b) (take (end_block - start_block) (drop start_block (block_map a))))"

definition MarkInodeAllocated :: "nat \<Rightarrow> Allocator \<Rightarrow> Allocator" where
  "MarkInodeAllocated i a =
     a\<lparr>node_map := (node_map a)
        [i := (node_map a ! i)\<lparr>IsAllocated := True, IsExtentContainer := False,
                                LZ4Compressed := False\<rparr>]\<rparr>"

definition MarkContainerNodeAllocated :: "nat \<Rightarrow> nat \<Rightarrow> Allocator \<Rightarrow> Allocator" where
  "MarkContainerNodeAllocated i previous a =
     a\<lparr>node_map := ((node_map a)
        [previous := (node_map a ! previous)\<lparr>next_node := i\<rparr>])
        [i := (node_map a ! i)\<lparr>IsAllocated := True, IsExtentContainer := True,
                                LZ4Compressed := False, extent_count := 0, extents := []\<rparr>]\<rparr>"

definition Allocator_FreeNode :: "nat \<Rightarrow> Allocator \<Rightarrow> Allocator" where
  "Allocator_FreeNode i a =
     a\<lparr>node_map := (node_map a)
        [i := (node_map a ! i)\<lparr>IsAllocated := False, IsExtentContainer := False,
                                LZ4Compressed := False\<rparr>]\<rparr>"

definition WriteBitmap :: "env \<Rightarrow> Blobfs \<Rightarrow> WritebackWork \<Rightarrow> nat \<Rightarrow> nat \<Rightarrow> WritebackWork" where
  "WriteBitmap e bs wb n start_block =
     (let bbm_start_block = start_block div kBlobfsBlockBits e;
          bbm_end_block = round_up (add_u64 start_block n) (kBlobfsBlockBits e)
                            div kBlobfsBlockBits e
      in wb_Enqueue BlockMapVmo bbm_start_block
           (add_u64 (BlockMapStartBlock e (m_info bs)) bbm_start_block)
           (sub_u64 bbm_end_block bbm_start_block) wb)"

definition WriteNode :: "env \<Rightarrow> Blobfs \<Rightarrow> WritebackWork \<Rightarrow> nat \<Rightarrow> WritebackWork" where
  "WriteNode e bs wb map_index =
     (let b = (map_index * kBlobfsInodeSize e) div kBlobfsBlockSize e
      in wb_Enqueue NodeMapVmo b (add_u64 (NodeMapStartBlock e (m_info bs)) b) 1 wb)"

definition WriteInfo :: "WritebackWork \<Rightarrow> WritebackWork" where
  "WriteInfo wb = wb_Enqueue InfoVmo 0 0 1 wb"

text \<open>
  The four accounting operations answer the work item and the filesystem after the
  call. The counts are \<open>uint64_t\<close>: \<open>+\<close> and \<open>-\<close> on \<open>64 word\<close> wrap as they do in C++.
\<close>

definition PersistBlocks :: "env \<Rightarrow> WritebackWork \<Rightarrow> Extent \<Rightarrow> Blobfs \<Rightarrow> WritebackWork \<times> Blobfs" where
  "PersistBlocks e wb reserved_extent bs =
     (let bs1 = bs\<lparr>m_allocator := MarkBlocksAllocated reserved_extent (m_allocator bs)\<rparr>;
          bs2 = bs1\<lparr>m_info := (m_info bs1)
                  \<lparr>alloc_block_count := alloc_block_count (m_info bs1)
                                          + of_nat (Length reserved_extent)\<rparr>\<rparr>
      in (WriteInfo (WriteBitmap e bs2 wb (Length reserved_extent) (Start reserved_extent)), bs2))"

definition FreeExtent :: "env \<Rightarrow> WritebackWork \<Rightarrow> Extent \<Rightarrow> Blobfs \<Rightarrow> WritebackWork \<times> Blobfs" where
  "FreeExtent e wb x bs =
     (let start = Start x; num_blocks = Length x; end_block = start + num_blocks
      in if CheckBlocksAllocated (m_allocator bs) start end_block
         then
           (let bs1 = bs\<lparr>m_allocator := FreeBlocks x (m_allocator bs)\<rparr>;
                bs2 = bs1\<lparr>m_info := (m_info bs1)
                        \<lparr>alloc_block_count := alloc_block_count (m_info bs1) - of_nat num_blocks\<rparr>\<rparr>
            in (WriteInfo (WriteBitmap e bs2 wb num_blocks start), bs2))
         else (wb, bs))"

definition FreeNode :: "env \<Rightarrow> WritebackWork \<Rightarrow> nat \<Rightarrow> Blobfs \<Rightarrow> WritebackWork \<times> Blobfs" where
  "FreeNode e wb node_index bs =
     (let bs1 = bs\<lparr>m_allocator := Allocator_FreeNode node_index (m_allocator bs)\<rparr>;
          bs2 = bs1\<lparr>m_info := (m_info bs1)
                  \<lparr>alloc_inode_count := alloc_inode_count (m_info bs1) - 1\<rparr>\<rparr>
      in (WriteNode e bs2 wb node_index, bs2))"

definition PersistNode :: "env \<Rightarrow> WritebackWork \<Rightarrow> nat \<Rightarrow> Blobfs \<Rightarrow> WritebackWork \<times> Blobfs" where
  "PersistNode e wb node_index bs =
     (let bs1 = bs\<lparr>m_info := (m_info bs)
                  \<lparr>alloc_inode_count := alloc_inode_count (m_info bs) + 1\<rparr>\<rparr>
      in (WriteInfo (WriteNode e bs1 wb node_index), bs1))"

text \<open>The two sides of the accounting invariant.\<close>

definition popcount :: "bool list \<Rightarrow> nat" where
  "popcount bm = length (filter (\<lambda>b. b) bm)"

definition allocated_nodes :: "Inode list \<Rightarrow> nat" where
  "allocated_nodes nm = length (filter IsAllocated nm)"

definition blocks_accounted :: "Blobfs \<Rightarrow> bool" where
  "blocks_accounted bs =
     (unat (alloc_block_count (m_info bs)) = popcount (block_map (m_allocator bs)))"

definition nodes_accounted :: "Blobfs \<Rightarrow> bool" where
  "nodes_accounted bs =
     (unat (alloc_inode_count (m_info bs)) = allocated_nodes (node_map (m_allocator bs)))"

text \<open>
  A reserved extent lies inside the bitmap and none of its blocks is allocated; the
  bitmap has one bit per data block, and their number is a \<open>uint64_t\<close>.
\<close>

definition reserved_extent :: "Extent \<Rightarrow> Blobfs \<Rightarrow> bool" where
  "reserved_extent x bs =
     (Start x + Length x \<le> length (block_map (m_allocator bs))
      \<and> \<not> list_ex (\<lambda>b. b) (take (Length x) (drop (Start x) (block_map (m_allocator bs))))
      \<and> length (block_map (m_allocator bs)) = unat (data_block_count (m_info bs)))"


section \<open>Node populator\<close>

datatype IterationCommand = Continue | Stop

text \<open>
  Modelled from the spec: \<open>NodeCountForExtents(k)\<close> is the least number of nodes that
  hold \<open>k\<close> extents, given the capacities of the primary inode and of a container.
\<close>

definition NodeCountForExtents :: "env \<Rightarrow> nat \<Rightarrow> nat" where
  "NodeCountForExtents e k =
     1 + (((if kInlineMaxExtents e < k then k - kInlineMaxExtents e else 0)
            + kContainerMaxExtents e - 1) div kContainerMaxExtents e)"

text \<open>
  Modelled from the spec: \<open>NodePopulator::Walk\<close> commits the first reserved node as the
  primary inode, then assigns the extents to it in order, overflowing into containers
  taken from the remaining reserved nodes and linked by their \<open>next\<close> pointers. It
  calls \<open>on_node\<close> for each node it uses and \<open>on_extent\<close> for each extent; \<open>on_extent\<close>
  may shorten the extent and may ask to stop. The state is the writer's: the work
  item, the filesystem and the blocks still to cover.
\<close>

type_synonym walk_state = "WritebackWork \<times> Blobfs \<times> nat"

definition on_allocator :: "(Allocator \<Rightarrow> Allocator) \<Rightarrow> walk_state \<Rightarrow> walk_state" where
  "on_allocator f s = (case s of (wb, bs, r) \<Rightarrow> (wb, bs\<lparr>m_allocator := f (m_allocator bs)\<rparr>, r))"

definition store_extent :: "nat \<Rightarrow> nat \<Rightarrow> Extent \<Rightarrow> Allocator \<Rightarrow> Allocator" where
  "store_extent primary node x a =
     (let nm1 = (node_map a)[node := (node_map a ! node)\<lparr>extents := extents (node_map a ! node) @ [x]\<rparr>];
          nm2 = (if node = primary then nm1
                 else nm1[node := (nm1 ! node)\<lparr>extent_count := extent_count (nm1 ! node) + 1\<rparr>])
      in a\<lparr>node_map := nm2[primary := (nm2 ! primary)\<lparr>extent_count := extent_count (nm2 ! primary) + 1\<rparr>]\<rparr>)"

fun Walk_extents ::
  "env \<Rightarrow> (nat \<Rightarrow> walk_state \<Rightarrow> walk_state)
     \<Rightarrow> (Extent \<Rightarrow> walk_state \<Rightarrow> Extent \<times> IterationCommand \<times> walk_state)
     \<Rightarrow> nat \<Rightarrow> nat \<Rightarrow> nat list \<Rightarrow> nat \<Rightarrow> nat \<Rightarrow> Extent list \<Rightarrow> walk_state \<Rightarrow> walk_state" where
  "Walk_extents e on_node on_extent primary node nodes local_index extent_index [] s = s"
| "Walk_extents e on_node on_extent primary node nodes local_index extent_index (x # xs) s =
     (if extent_index = kInlineMaxExtents e
         \<or> (kInlineMaxExtents e < extent_index \<and> local_index = kContainerMaxExtents e)
      then
        (case nodes of
           [] \<Rightarrow> s
         | c # cs \<Rightarrow>
             (case on_extent x (on_node c (on_allocator (MarkContainerNodeAllocated c node) s)) of
                (x', command, s') \<Rightarrow>
                  if command = Stop then on_allocator (store_extent primary c x') s'
                  else Walk_extents e on_node on_extent primary c cs 1 (Suc extent_index) xs
                         (on_allocator (store_extent primary c x') s')))
      else
        (case on_extent x s of
           (x', command, s') \<Rightarrow>
             if command = Stop then on_allocator (store_extent primary node x') s'
             else Walk_extents e on_node on_extent primary node nodes (Suc local_index)
                    (Suc extent_index) xs (on_allocator (store_extent primary node x') s')))"

definition Walk ::
  "env \<Rightarrow> (nat \<Rightarrow> walk_state \<Rightarrow> walk_state)
     \<Rightarrow> (Extent \<Rightarrow> walk_state \<Rightarrow> Extent \<times> IterationCommand \<times> walk_state)
     \<Rightarrow> Extent list \<Rightarrow> nat list \<Rightarrow> walk_state \<Rightarrow> walk_state" where
  "Walk e on_node on_extent xs nodes s =
     (case nodes of
        [] \<Rightarrow> s
      | p # cs \<Rightarrow>
          Walk_extents e on_node on_extent p p cs 0 0 xs
            (on_node p (on_allocator (MarkInodeAllocated p) s)))"

section \<open>The writer\<close>

text \<open>The two callbacks that \<open>WriteMetadata\<close> hands to the populator.\<close>

definition on_node :: "env \<Rightarrow> nat \<Rightarrow> walk_state \<Rightarrow> walk_state" where
  "on_node e node s =
     (case s of (wb, bs, remaining_blocks) \<Rightarrow>
        (case PersistNode e wb node bs of (wb', bs') \<Rightarrow> (wb', bs', remaining_blocks)))"

definition on_extent :: "env \<Rightarrow> Extent \<Rightarrow> walk_state \<Rightarrow> Extent \<times> IterationCommand \<times> walk_state" where
  "on_extent e x s =
     (case s of (wb, bs, remaining_blocks) \<Rightarrow>
        (let x' = (if Length x \<le> remaining_blocks then x else x\<lparr>Length := remaining_blocks\<rparr>);
             remaining_blocks' = (if Length x \<le> remaining_blocks
                                  then remaining_blocks - Length x else 0)
         in case PersistBlocks e wb x' bs of
              (wb', bs') \<Rightarrow>
                (x', if remaining_blocks' = 0 then Stop else Continue, (wb', bs', remaining_blocks'))))"

text \<open>
  \<open>WriteMetadata\<close>. The vnode has its \<open>write_info_\<close> when the function is called; with
  none the C++ would dereference a null pointer, which the model answers with
  \<open>ZX_ERR_INTERNAL\<close>. The null blob has exactly one reserved node (the C++ asserts it);
  with none, no node is committed.
\<close>

definition WriteMetadata :: "env \<Rightarrow> Blobfs \<Rightarrow> VnodeBlob \<Rightarrow> zx_status \<times> Blobfs \<times> VnodeBlob" where
  "WriteMetadata e bs vn =
     (case CreateWork bs of
        Inl status \<Rightarrow> (status, bs, vn)
      | Inr wb \<Rightarrow>
          (let vn1 = vn\<lparr>m_inode := (m_inode vn)\<lparr>merkle_root_hash := m_digest vn\<rparr>,
                        GetState := kBlobStateReadable\<rparr>
           in if m_readable_event vn1 \<noteq> None \<and> event_signal e \<noteq> ZX_OK
              then (event_signal e, bs, vn1\<lparr>GetState := kBlobStateError\<rparr>)
              else
                (let vn2 = vn1\<lparr>m_readable_event := map_option (\<lambda>_. True) (m_readable_event vn1),
                               m_syncing := True\<rparr>
                 in case m_write_info vn2 of
                      None \<Rightarrow> (ZX_ERR_INTERNAL, bs, vn2)
                    | Some wi \<Rightarrow>
                        (case (if block_count (m_inode vn2) \<noteq> 0
                               then
                                 (let bs1 = bs\<lparr>m_allocator := (m_allocator bs)
                                              \<lparr>node_map := (node_map (m_allocator bs))
                                                 [m_map_index vn2 := m_inode vn2]\<rparr>\<rparr>
                                  in case Walk e (on_node e) (on_extent e) (wi_extents wi)
                                            (node_indices wi) (wb, bs1, block_count (m_inode vn2)) of
                                       (wb1, bs2, remaining_blocks) \<Rightarrow>
                                         (wb1, bs2\<lparr>m_allocator := (m_allocator bs2)
                                            \<lparr>node_map := (node_map (m_allocator bs2))
                                               [m_map_index vn2 :=
                                                  (node_map (m_allocator bs2) ! m_map_index vn2)
                                                    \<lparr>LZ4Compressed :=
                                                        LZ4Compressed (node_map (m_allocator bs2) ! m_map_index vn2)
                                                        \<or> LZ4Compressed (m_inode vn2)\<rparr>]\<rparr>\<rparr>,
                                          vn2\<lparr>m_write_info := Some (wi\<lparr>wi_extents := [], node_indices := []\<rparr>)\<rparr>))
                               else
                                 (case node_indices wi of
                                    [] \<Rightarrow> (wb, bs, vn2)
                                  | node # rest \<Rightarrow>
                                      (case PersistNode e wb node
                                              (bs\<lparr>m_allocator := MarkInodeAllocated node (m_allocator bs)\<rparr>) of
                                         (wb1, bs1) \<Rightarrow> (wb1, bs1, vn2)))) of
                           (wb2, bs3, vn3) \<Rightarrow>
                             (case EnqueueWork e bs3 (wb2\<lparr>sync_complete := True\<rparr>) kJournal of
                                (status, bs4) \<Rightarrow>
                                  if status \<noteq> ZX_OK then (status, bs4, vn3)
                                  else (status, bs4, vn3\<lparr>m_write_info := None\<rparr>))))))"

definition ConsiderCompressionAbort :: "env \<Rightarrow> VnodeBlob \<Rightarrow> VnodeBlob" where
  "ConsiderCompressionAbort e vn =
     (case m_write_info vn of
        None \<Rightarrow> vn
      | Some wi \<Rightarrow>
          if sub_u64 (blob_size (m_inode vn)) (kCompressionMinBytesSaved e) < Size (compressor wi)
          then vn\<lparr>m_write_info :=
                 Some (wi\<lparr>compressor := \<lparr>Compressing = False, Size = 0\<rparr>, compressed_blob := None\<rparr>)\<rparr>
          else vn)"

text \<open>
  \<open>WriteInternal\<close>, lines 634 to 665: the Merkle tree is created in the reserved prefix
  of the buffer and its root compared with the name, then the Merkle blocks are
  streamed; a blob too small for a tree is verified instead.
\<close>

definition stream_to ::
  "env \<Rightarrow> vmo_ref \<Rightarrow> nat \<Rightarrow> nat \<Rightarrow> nat \<Rightarrow> nat \<Rightarrow> WritebackWork \<times> Blobfs
     \<Rightarrow> (zx_status \<times> WritebackWork \<times> Blobfs) option" where
  "stream_to e vmo bias vmo_offset dev_offset len s =
     (case s of (wb, bs) \<Rightarrow>
        EnqueuePaginated e wb bs vmo (sub_u64 vmo_offset bias)
          (add_u64 dev_offset (DataStartBlock e (m_info bs))) len)"

definition WriteInternal_merkle ::
  "env \<Rightarrow> VnodeBlob \<Rightarrow> BlockIterator \<Rightarrow> WritebackWork \<times> Blobfs
     \<Rightarrow> (zx_status \<times> VnodeBlob \<times> BlockIterator \<times> WritebackWork \<times> Blobfs) option" where
  "WriteInternal_merkle e vn block_iter s =
     (let merkle_blocks = MerkleTreeBlocks e (m_inode vn);
          merkle_size = GetTreeLength e (blob_size (m_inode vn))
      in if 0 < merkle_size then
           (case MerkleTree_Create e (GetData e vn) (blob_size (m_inode vn)) of
              (status, tree, digest) \<Rightarrow>
                (let vn1 = vn\<lparr>m_mapping :=
                             map_option (\<lambda>m. blit m 0 (take merkle_size tree)) (m_mapping vn)\<rparr>
                 in if status \<noteq> ZX_OK then Some (status, vn1, block_iter, s)
                    else if digest \<noteq> m_digest vn then Some (ZX_ERR_IO_DATA_INTEGRITY, vn1, block_iter, s)
                    else
                      (case StreamBlocks block_iter merkle_blocks (stream_to e BlobVmo 0) s of
                         None \<Rightarrow> None
                       | Some (status1, block_iter1, s1) \<Rightarrow> Some (status1, vn1, block_iter1, s1))))
         else if Verify e vn \<noteq> ZX_OK then Some (Verify e vn, vn, block_iter, s)
         else Some (ZX_OK, vn, block_iter, s))"

text \<open>
  \<open>WriteInternal\<close>, lines 667 to 703: the compressed payload, or else the raw data, is
  streamed; a compressed blob gets its block count and its flag.
\<close>

definition WriteInternal_data ::
  "env \<Rightarrow> VnodeBlob \<Rightarrow> WritebackInfo \<Rightarrow> BlockIterator \<Rightarrow> WritebackWork \<times> Blobfs
     \<Rightarrow> (zx_status \<times> VnodeBlob \<times> WritebackWork \<times> Blobfs) option" where
  "WriteInternal_data e vn wi block_iter s =
     (let merkle_blocks = MerkleTreeBlocks e (m_inode vn)
      in if Compressing (compressor wi) then
           (let blocks = (round_up (Size (compressor wi)) (kBlobfsBlockSize e)
                            div kBlobfsBlockSize e) mod 2 ^ 32
            in case StreamBlocks block_iter blocks (stream_to e CompressedVmo merkle_blocks) s of
                 None \<Rightarrow> None
               | Some (status, block_iter1, wb1, bs1) \<Rightarrow>
                   if status \<noteq> ZX_OK then Some (status, vn, wb1, bs1)
                   else Some (ZX_OK,
                          vn\<lparr>m_inode := (m_inode vn)
                                \<lparr>block_count := (blocks + MerkleTreeBlocks e (m_inode vn)) mod 2 ^ 32,
                                 LZ4Compressed := True\<rparr>\<rparr>,
                          wb1, bs1))
         else
           (let blocks = (round_up (blob_size (m_inode vn)) (kBlobfsBlockSize e)
                            div kBlobfsBlockSize e) mod 2 ^ 32
            in case StreamBlocks block_iter blocks (stream_to e BlobVmo 0) s of
                 None \<Rightarrow> None
               | Some (status, block_iter1, wb1, bs1) \<Rightarrow> Some (status, vn, wb1, bs1)))"

text \<open>
  \<open>WriteInternal\<close>, lines 619 to 624: a compressor still active is finalised, and the
  abort check runs once more.
\<close>

definition WriteInternal_finalise :: "env \<Rightarrow> VnodeBlob \<Rightarrow> WritebackInfo \<Rightarrow> zx_status \<times> VnodeBlob" where
  "WriteInternal_finalise e vn wi =
     (if Compressing (compressor wi)
      then (case compressor_End e (Size (compressor wi)) of
              (status, sz) \<Rightarrow>
                (status,
                 if status \<noteq> ZX_OK then vn
                 else ConsiderCompressionAbort e
                        (vn\<lparr>m_write_info := Some (wi\<lparr>compressor := (compressor wi)\<lparr>Size := sz\<rparr>\<rparr>)\<rparr>)))
      else (ZX_OK, vn))"

text \<open>
  \<open>WriteInternal\<close>, lines 619 to 719, entered with the work item just created: what
  runs under the \<open>set_error\<close> guard. The guard itself is in \<open>WriteInternal\<close> below.
\<close>

definition WriteInternal_flush ::
  "env \<Rightarrow> Blobfs \<Rightarrow> VnodeBlob \<Rightarrow> WritebackInfo \<Rightarrow> WritebackWork
     \<Rightarrow> (zx_status \<times> Blobfs \<times> VnodeBlob) option" where
  "WriteInternal_flush e bs vn wi wb =
     (case WriteInternal_finalise e vn wi of
        (status, vn1) \<Rightarrow>
          if status \<noteq> ZX_OK then Some (status, bs, vn1)
          else
            (case m_write_info vn1 of
               None \<Rightarrow> Some (ZX_ERR_INTERNAL, bs, vn1)
             | Some wi1 \<Rightarrow>
                 (case WriteInternal_merkle e vn1 (new_BlockIterator (wi_extents wi1)) (wb, bs) of
                    None \<Rightarrow> None
                  | Some (status1, vn2, block_iter1, wb1, bs1) \<Rightarrow>
                      if status1 \<noteq> ZX_OK then Some (status1, bs1, vn2)
                      else
                        (case WriteInternal_data e vn2 wi1 block_iter1 (wb1, bs1) of
                           None \<Rightarrow> None
                         | Some (status2, vn3, wb2, bs2) \<Rightarrow>
                             if status2 \<noteq> ZX_OK then Some (status2, bs2, vn3)
                             else
                               (case EnqueueWork e bs2 wb2 kData of
                                  (status3, bs3) \<Rightarrow>
                                    if status3 \<noteq> ZX_OK then Some (status3, bs3, vn3)
                                    else Some (WriteMetadata e bs3 vn3))))))"

text \<open>
  \<open>WriteInternal\<close>, lines 577 to 595: the bytes go into the buffer after the Merkle
  region and to the compressor. The answer is the status, \<open>*actual\<close> and the vnode.
\<close>

definition WriteInternal_buffer ::
  "env \<Rightarrow> VnodeBlob \<Rightarrow> WritebackInfo \<Rightarrow> bytes \<Rightarrow> nat \<Rightarrow> zx_status \<times> nat \<times> VnodeBlob" where
  "WriteInternal_buffer e vn wi data len =
     (let merkle_bytes = MerkleTreeBlocks e (m_inode vn) * kBlobfsBlockSize e;
          to_write = min len (sub_u64 (blob_size (m_inode vn)) (bytes_written wi));
          offset = bytes_written wi + merkle_bytes
      in case vmo_write (m_mapping vn) data offset to_write of
           (status, mapping1) \<Rightarrow>
             if status \<noteq> ZX_OK then (status, 0, vn)
             else
               (let wi1 = wi\<lparr>bytes_written := bytes_written wi + to_write\<rparr>;
                    vn1 = vn\<lparr>m_mapping := mapping1, m_write_info := Some wi1\<rparr>
                in if Compressing (compressor wi1)
                   then (case compressor_Update e (Size (compressor wi1)) (take to_write data) of
                           (status1, sz) \<Rightarrow>
                             if status1 \<noteq> ZX_OK then (status1, to_write, vn1)
                             else (ZX_OK, to_write,
                                   ConsiderCompressionAbort e
                                     (vn1\<lparr>m_write_info :=
                                        Some (wi1\<lparr>compressor := (compressor wi1)\<lparr>Size := sz\<rparr>\<rparr>)\<rparr>)))
                   else (ZX_OK, to_write, vn1)))"

text \<open>
  \<open>WriteInternal\<close> answers \<open>(status, actual, filesystem, vnode)\<close>. The \<open>set_error\<close> guard
  sets the state to \<open>kBlobStateError\<close> on every return between its construction and
  its cancellation.
\<close>

definition WriteInternal ::
  "env \<Rightarrow> Blobfs \<Rightarrow> VnodeBlob \<Rightarrow> bytes \<Rightarrow> nat \<Rightarrow> (zx_status \<times> nat \<times> Blobfs \<times> VnodeBlob) option" where
  "WriteInternal e bs vn data len =
     (if len = 0 then Some (ZX_OK, 0, bs, vn)
      else if GetState vn = kBlobStateDataWrite then
        (case m_write_info vn of
           None \<Rightarrow> Some (ZX_ERR_INTERNAL, 0, bs, vn)
         | Some wi \<Rightarrow>
             (case WriteInternal_buffer e vn wi data len of
                (status, actual, vn2) \<Rightarrow>
                  if status \<noteq> ZX_OK then Some (status, actual, bs, vn2)
                  else
                    (case m_write_info vn2 of
                       None \<Rightarrow> Some (ZX_ERR_INTERNAL, actual, bs, vn2)
                     | Some wi2 \<Rightarrow>
                         if bytes_written wi2 < blob_size (m_inode vn2)
                         then Some (ZX_OK, actual, bs, vn2)
                         else
                           (case CreateWork bs of
                              Inl status2 \<Rightarrow> Some (status2, actual, bs, vn2)
                            | Inr wb \<Rightarrow>
                                (case WriteInternal_flush e bs vn2 wi2 wb of
                                   None \<Rightarrow> None
                                 | Some (status3, bs3, vn3) \<Rightarrow>
                                     if status3 \<noteq> ZX_OK
                                     then Some (status3, actual, bs3, vn3\<lparr>GetState := kBlobStateError\<rparr>)
                                     else Some (ZX_OK, actual, bs3, vn3))))))
      else Some (ZX_ERR_BAD_STATE, 0, bs, vn))"

section \<open>Space allocation\<close>

definition new_WritebackInfo :: WritebackInfo where
  "new_WritebackInfo =
     \<lparr>bytes_written = 0, wi_extents = [], node_indices = [],
      compressor = \<lparr>Compressing = False, Size = 0\<rparr>, compressed_blob = None\<rparr>"

text \<open>\<open>Digest::kLength\<close>: the digest has 32 bytes.\<close>

definition kLength :: nat where
  "kLength = 32"

definition SpaceAllocate :: "env \<Rightarrow> Blobfs \<Rightarrow> VnodeBlob \<Rightarrow> nat \<Rightarrow> zx_status \<times> Blobfs \<times> VnodeBlob" where
  "SpaceAllocate e bs vn size_data =
     (if GetState vn \<noteq> kBlobStateEmpty then (ZX_ERR_BAD_STATE, bs, vn)
      else
        (let inode1 = (m_inode vn)\<lparr>merkle_root_hash := replicate kLength 0, blob_size := size_data\<rparr>;
             inode2 = inode1\<lparr>block_count :=
                        (MerkleTreeBlocks e inode1 + BlobDataBlocks e inode1 mod 2 ^ 32) mod 2 ^ 32\<rparr>;
             vn1 = vn\<lparr>m_inode := inode2\<rparr>
         in if blob_size (m_inode vn1) = 0 then
              (case ReserveNodes e (m_allocator bs) 1 of
                 Inl status \<Rightarrow> (status, bs, vn1)
               | Inr nodes \<Rightarrow>
                   (case nodes of
                      [] \<Rightarrow> (ZX_ERR_INTERNAL, bs, vn1)
                    | node # rest \<Rightarrow>
                        (let vn2 = vn1\<lparr>m_map_index := node,
                                       m_write_info := Some (new_WritebackInfo\<lparr>node_indices := nodes\<rparr>)\<rparr>
                         in if Verify e vn2 \<noteq> ZX_OK then (Verify e vn2, bs, vn2)
                            else WriteMetadata e bs (vn2\<lparr>GetState := kBlobStateDataWrite\<rparr>))))
            else
              (case ReserveBlocks e (m_allocator bs) (block_count (m_inode vn1)) of
                 Inl status \<Rightarrow> (status, bs, vn1)
               | Inr xs \<Rightarrow>
                   if kMaxBlobExtents e < length xs then (ZX_ERR_BAD_STATE, bs, vn1)
                   else
                     (case ReserveNodes e (m_allocator bs) (NodeCountForExtents e (length xs)) of
                        Inl status \<Rightarrow> (status, bs, vn1)
                      | Inr nodes \<Rightarrow>
                          (case (if kCompressionMinBytesSaved e \<le> blob_size (m_inode vn1)
                                 then
                                   (if CreateAndMap e CompressedVmo (BufferMax e (blob_size (m_inode vn1))) \<noteq> ZX_OK
                                    then (CreateAndMap e CompressedVmo (BufferMax e (blob_size (m_inode vn1))),
                                          new_WritebackInfo)
                                    else if compressor_Initialize e \<noteq> ZX_OK
                                    then (compressor_Initialize e, new_WritebackInfo)
                                    else (ZX_OK,
                                          new_WritebackInfo
                                            \<lparr>compressor := \<lparr>Compressing = True, Size = 0\<rparr>,
                                             compressed_blob :=
                                               Some (replicate (BufferMax e (blob_size (m_inode vn1))) 0)\<rparr>))
                                 else (ZX_OK, new_WritebackInfo)) of
                             (status, write_info) \<Rightarrow>
                               if status \<noteq> ZX_OK then (status, bs, vn1)
                               else if CreateAndMap e BlobVmo
                                         (block_count (m_inode vn1) * kBlobfsBlockSize e) \<noteq> ZX_OK
                               then (CreateAndMap e BlobVmo
                                       (block_count (m_inode vn1) * kBlobfsBlockSize e), bs, vn1)
                               else if AttachVmo e BlobVmo \<noteq> ZX_OK then (AttachVmo e BlobVmo, bs, vn1)
                               else
                                 (case nodes of
                                    [] \<Rightarrow> (ZX_ERR_INTERNAL, bs, vn1)
                                  | node # rest \<Rightarrow>
                                      (ZX_OK, bs,
                                       vn1\<lparr>m_map_index := node,
                                           m_mapping := Some (replicate
                                             (block_count (m_inode vn1) * kBlobfsBlockSize e) 0),
                                           m_write_info :=
                                             Some (write_info\<lparr>wi_extents := xs, node_indices := nodes\<rparr>),
                                           GetState := kBlobStateDataWrite\<rparr>)))))))"

section \<open>Blob cache\<close>

text \<open>
  The two tables, keyed by digest, are association lists. \<open>find\<close>, \<open>erase\<close> and
  \<open>insert\<close> are those of the hash table.
\<close>

definition hash_erase :: "digest \<Rightarrow> (digest \<times> VnodeBlob) list \<Rightarrow> (digest \<times> VnodeBlob) list" where
  "hash_erase key t = filter (\<lambda>kv. fst kv \<noteq> key) t"

definition hash_insert :: "VnodeBlob \<Rightarrow> (digest \<times> VnodeBlob) list \<Rightarrow> (digest \<times> VnodeBlob) list" where
  "hash_insert vn t = (m_digest vn, vn) # t"

text \<open>
  Modelled from the spec: \<open>TearDown\<close> drops the caches inside the vnode (its mapped
  buffer).
\<close>

definition TearDown :: "VnodeBlob \<Rightarrow> VnodeBlob" where
  "TearDown vn = vn\<lparr>m_mapping := None\<rparr>"

definition VnodeInsertClosedLocked :: "Blobfs \<Rightarrow> VnodeBlob \<Rightarrow> zx_status \<times> Blobfs" where
  "VnodeInsertClosedLocked bs vn =
     (if map_of (m_closed_hash bs) (m_digest vn) \<noteq> None then (ZX_ERR_ALREADY_EXISTS, bs)
      else
        (case m_cache_policy bs of
           EvictImmediately \<Rightarrow> (ZX_OK, bs\<lparr>m_closed_hash := hash_insert (TearDown vn) (m_closed_hash bs)\<rparr>)
         | NeverEvict \<Rightarrow> (ZX_OK, bs\<lparr>m_closed_hash := hash_insert vn (m_closed_hash bs)\<rparr>)))"

text \<open>
  \<open>VnodeReleaseSoft\<close>: the reference is resurrected, the vnode leaves the open table
  and enters the closed one. The two assertions of the C++ hold in the model's result
  when the status is \<open>ZX_OK\<close>.
\<close>

definition VnodeReleaseSoft :: "Blobfs \<Rightarrow> VnodeBlob \<Rightarrow> zx_status \<times> Blobfs" where
  "VnodeReleaseSoft bs raw_vn =
     VnodeInsertClosedLocked
       (bs\<lparr>m_open_hash := hash_erase (m_digest raw_vn) (m_open_hash bs)\<rparr>)
       (raw_vn\<lparr>ref_count := 1\<rparr>)"

text \<open>
  Modelled from the spec: the final release of a vnode (\<open>ref_count\<close> reaching 0) moves
  it from the open table to the closed one, unless it is purged, in which case it is
  destroyed.
\<close>

definition release_ref :: "Blobfs \<Rightarrow> VnodeBlob \<Rightarrow> Blobfs" where
  "release_ref bs vn =
     (if ref_count vn - 1 = 0 then
        (if GetState vn \<noteq> kBlobStatePurged then snd (VnodeReleaseSoft bs (vn\<lparr>ref_count := 0\<rparr>))
         else bs)
      else bs\<lparr>m_open_hash := map (\<lambda>kv. if fst kv = m_digest vn
                                          then (fst kv, vn\<lparr>ref_count := ref_count vn - 1\<rparr>) else kv)
                                (m_open_hash bs)\<rparr>)"

definition VnodeUpgradeLocked :: "Blobfs \<Rightarrow> digest \<Rightarrow> VnodeBlob option \<times> Blobfs" where
  "VnodeUpgradeLocked bs key =
     (case map_of (m_closed_hash bs) key of
        None \<Rightarrow> (None, bs)
      | Some raw_vn \<Rightarrow>
          (Some raw_vn,
           bs\<lparr>m_closed_hash := hash_erase key (m_closed_hash bs),
              m_open_hash := hash_insert raw_vn (m_open_hash bs)\<rparr>))"

text \<open>
  \<open>LookupBlob\<close>. An entry of the open table whose reference count is 0 makes the loop
  try again; with nothing else running, it does so forever. \<open>want_out\<close> tells whether
  the caller passed a place for the vnode; without one the reference taken by the
  lookup is released before returning.
\<close>

partial_function (option) LookupBlob ::
  "Blobfs \<Rightarrow> digest \<Rightarrow> bool \<Rightarrow> (zx_status \<times> VnodeBlob option \<times> Blobfs) option" where
  "LookupBlob bs key want_out =
     (case map_of (m_open_hash bs) key of
        Some raw_vn \<Rightarrow>
          if ref_count raw_vn = 0 then LookupBlob bs key want_out
          else if want_out
          then Some (ZX_OK, Some (raw_vn\<lparr>ref_count := ref_count raw_vn + 1\<rparr>),
                 bs\<lparr>m_open_hash := map (\<lambda>kv. if fst kv = key
                                                then (fst kv, raw_vn\<lparr>ref_count := ref_count raw_vn + 1\<rparr>)
                                                else kv) (m_open_hash bs)\<rparr>)
          else Some (ZX_OK, None, bs)
      | None \<Rightarrow>
          (case VnodeUpgradeLocked bs key of
             (None, bs1) \<Rightarrow> Some (ZX_ERR_NOT_FOUND, None, bs1)
           | (Some vn, bs1) \<Rightarrow>
               if want_out then Some (ZX_OK, Some vn, bs1)
               else Some (ZX_OK, None, release_ref bs1 vn)))"

declare LookupBlob.simps [code]

definition new_Inode :: Inode where
  "new_Inode =
     \<lparr>IsAllocated = False, IsExtentContainer = False, LZ4Compressed = False, next_node = 0,
      merkle_root_hash = [], blob_size = 0, block_count = 0, extent_count = 0, extents = []\<rparr>"

text \<open>The constructor \<open>VnodeBlob(bs, digest)\<close>, adopted by its first reference.\<close>

definition new_VnodeBlob_of :: "digest \<Rightarrow> VnodeBlob" where
  "new_VnodeBlob_of d =
     \<lparr>m_digest = d, GetState = kBlobStateEmpty, DeletionQueued = False, m_syncing = False,
      m_inode = new_Inode, m_map_index = 0, m_mapping = None, m_readable_event = None,
      m_write_info = None, clone_watcher_object = False, m_clone_ref = False, ref_count = 1\<rparr>"

definition NewBlob :: "env \<Rightarrow> Blobfs \<Rightarrow> digest \<Rightarrow> (zx_status \<times> VnodeBlob option \<times> Blobfs) option" where
  "NewBlob e bs d =
     (case LookupBlob bs d False of
        None \<Rightarrow> None
      | Some (status, vn, bs1) \<Rightarrow>
          if status \<noteq> ZX_ERR_NOT_FOUND
          then Some (if status = ZX_OK then ZX_ERR_ALREADY_EXISTS else status, None, bs1)
          else if \<not> new_VnodeBlob e then Some (ZX_ERR_NO_MEMORY, None, bs1)
          else Some (ZX_OK, Some (new_VnodeBlob_of d),
                 bs1\<lparr>m_open_hash := hash_insert (new_VnodeBlob_of d) (m_open_hash bs1)\<rparr>))"


section \<open>A small filesystem\<close>

text \<open>
  A concrete environment and filesystem on which the functions above can be run:
  blocks of one byte, a writeback buffer of 8 blocks, 16 data blocks, 4 nodes. The
  root digest of some data is the data itself, and data of more than one byte has a
  tree of one byte. \<open>env0\<close> never compresses (the threshold is out of reach); \<open>env1\<close>
  compresses two bytes into one. The device holds, from the start of the data region,
  the tree byte and then the bytes 1 to 6.
\<close>

definition env0 :: env where
  "env0 =
     \<lparr>kBlobfsBlockSize = 1, kCompressionMinBytesSaved = 100, kMaxBlobExtents = 10,
      kInlineMaxExtents = 1, kContainerMaxExtents = 6,
      GetTreeLength = (\<lambda>n. if n \<le> 1 then 0 else 1),
      merkle_tree = (\<lambda>d. if length d \<le> 1 then [] else [7]),
      merkle_root = (\<lambda>d. d),
      DataStartBlock = (\<lambda>i. 100), BlockMapStartBlock = (\<lambda>i. 1), NodeMapStartBlock = (\<lambda>i. 10),
      kBlobfsInodeSize = 1, kBlobfsBlockBits = 8,
      CreateAndMap = (\<lambda>v n. ZX_OK), vmo_duplicate = (\<lambda>v. ZX_OK),
      ioctl_block_attach_vmo = (\<lambda>v. ZX_OK),
      device_block = (\<lambda>n. if 100 \<le> n \<and> n < 107 then [[7, 1, 2, 3, 4, 5, 6] ! (n - 100)] else [0]),
      Transact = (\<lambda>t. ZX_OK),
      Decompress = (\<lambda>src n. (ZX_OK, concat (map (\<lambda>b. [2 * b - 1, 2 * b]) src))),
      vmo_clone = ZX_OK, replace_as_executable = ZX_OK, handle_replace = ZX_OK,
      event_signal = ZX_OK, BufferMax = (\<lambda>n. n),
      compressor_Initialize = ZX_OK,
      compressor_Update = (\<lambda>sz chunk. (ZX_OK, sz + length chunk div 2)),
      compressor_End = (\<lambda>sz. (ZX_OK, sz)),
      ReserveBlocks = (\<lambda>a n. Inr [\<lparr>Start = 0, Length = n\<rparr>]),
      ReserveNodes = (\<lambda>a n. Inr [0 ..< n]),
      writeback_Enqueue = (\<lambda>w. ZX_OK), journal_Enqueue = (\<lambda>w. ZX_OK),
      new_VnodeBlob = True\<rparr>"

definition env1 :: env where
  "env1 = env0\<lparr>kCompressionMinBytesSaved := 1\<rparr>"

definition bs0 :: Blobfs where
  "bs0 =
     \<lparr>m_info = \<lparr>inode_count = 4, data_block_count = 16, alloc_block_count = 0,
                 alloc_inode_count = 0\<rparr>,
      m_allocator =
        \<lparr>block_map = [False, False, False, False, False, False, False, False,
                      False, False, False, False, False, False, False, False],
         node_map = [new_Inode, new_Inode, new_Inode, new_Inode]\<rparr>,
      m_writeback = Some \<lparr>capacity = 8, queued = []\<rparr>,
      m_journal = Some [],
      m_open_hash = [], m_closed_hash = [],
      m_cache_policy = EvictImmediately\<rparr>"

text \<open>Six bytes of data, and the vnode opened under their digest with its space allocated.\<close>

definition data6 :: bytes where
  "data6 = [1, 2, 3, 4, 5, 6]"

definition writer6 :: "env \<Rightarrow> VnodeBlob" where
  "writer6 e = snd (snd (SpaceAllocate e bs0 (new_VnodeBlob_of data6) 6))"


text \<open>
  The same blob once its six bytes are written: the result of the write, the
  filesystem and the vnode after it, and the vnode without its buffers, as it is when
  it comes back from the closed table.
\<close>

definition written6 :: "env \<Rightarrow> zx_status \<times> nat \<times> Blobfs \<times> VnodeBlob" where
  "written6 e = the (WriteInternal e bs0 (writer6 e) data6 6)"

definition bs6 :: "env \<Rightarrow> Blobfs" where
  "bs6 e = fst (snd (snd (written6 e)))"

definition reader6 :: "env \<Rightarrow> VnodeBlob" where
  "reader6 e = snd (snd (snd (written6 e)))"

definition closed6 :: "env \<Rightarrow> VnodeBlob" where
  "closed6 e = TearDown (reader6 e)"

text \<open>The null blob, created in the same filesystem.\<close>

definition null_blob :: VnodeBlob where
  "null_blob = snd (snd (SpaceAllocate env0 bs0 (new_VnodeBlob_of []) 0))"

text \<open>
  The filesystem after the write, with the blob in the closed table (no handle open)
  and with the blob in the open table.
\<close>

definition bs6_closed :: Blobfs where
  "bs6_closed = (bs6 env0)\<lparr>m_closed_hash := [(data6, closed6 env0)]\<rparr>"

definition bs6_open :: Blobfs where
  "bs6_open = (bs6 env0)\<lparr>m_open_hash := [(data6, reader6 env0)]\<rparr>"

text \<open>An environment whose decompressor stops one byte short.\<close>

definition env_short :: env where
  "env_short =
     env1\<lparr>Decompress := (\<lambda>src n. (ZX_OK, take 5 (concat (map (\<lambda>b. [2 * b - 1, 2 * b]) src))))\<rparr>"

text \<open>An environment whose device holds a wrong byte in block 103.\<close>

definition env_corrupt :: env where
  "env_corrupt =
     env0\<lparr>device_block :=
            (\<lambda>n. if 100 \<le> n \<and> n < 107 then [[7, 1, 2, 9, 4, 5, 6] ! (n - 100)] else [0])\<rparr>"

text \<open>The definitions that running the examples unfolds.\<close>

lemmas step_defs =
  env0_def env1_def env_short_def env_corrupt_def bs0_def data6_def
  new_VnodeBlob_of_def new_Inode_def
  SpaceAllocate_def MerkleTreeBlocks_def BlobDataBlocks_def round_up_def NodeCountForExtents_def
  AttachVmo_def new_WritebackInfo_def WriteInternal_def WriteInternal_buffer_def
  WriteInternal_flush_def WriteInternal_finalise_def WriteInternal_merkle_def WriteInternal_data_def WriteMetadata_def
  add_u64_def sub_u64_def vmo_write_def vmo_read_def blit_def ConsiderCompressionAbort_def CreateWork_def
  new_WritebackWork_def MerkleTree_Create_def MerkleTree_Verify_def Verify_def GetData_def
  GetMerkle_def new_BlockIterator_def StreamBlocks.simps stream_to_def EnqueuePaginated_def
  EnqueuePaginated_loop.simps WritebackCapacity_def wb_Enqueue_def EnqueueWork_def
  EnqueueWork_data_def WritebackQueue_Enqueue_def Journal_Enqueue_def Walk_def on_node_def
  on_extent_def on_allocator_def store_extent_def PersistNode_def PersistBlocks_def
  MarkInodeAllocated_def MarkBlocksAllocated_def set_bits_def WriteNode_def WriteInfo_def
  WriteBitmap_def kLength_def TearDown_def InitVmos_def InitCompressed_def
  InitCompressed_read_def InitUncompressed_def ReadInternal_def CloneVmo_def
  AllocatedExtentIterator_def txn_Enqueue_def read_blocks_def BlobCloseHandles_def BlkCount_def

lemmas run_defs =
  bs6_closed_def bs6_open_def writer6_def written6_def bs6_def reader6_def closed6_def
  null_blob_def step_defs


section \<open>The small filesystem, run\<close>

text \<open>
  The vnode after \<open>SpaceAllocate\<close>, and the filesystem and the vnode after the write of
  the six bytes, stored raw (\<open>env0\<close>) and compressed (\<open>env1\<close>).
\<close>

lemma writer6_env0:
  "writer6 env0 =
     \<lparr>m_digest = [1, 2, 3, 4, 5, 6], GetState = kBlobStateDataWrite,
       DeletionQueued = False, m_syncing = False, m_inode = \<lparr>IsAllocated = False,
       IsExtentContainer = False, LZ4Compressed = False, next_node = 0,
       merkle_root_hash = replicate 32 0, blob_size = 6, block_count = 7, extent_count = 0,
       extents = []\<rparr>, m_map_index = 0, m_mapping = Some (replicate 7 0),
       m_readable_event = None, m_write_info = Some \<lparr>bytes_written = 0,
       wi_extents = [\<lparr>Start = 0, Length = 7\<rparr>], node_indices = [0],
       compressor = \<lparr>Compressing = False, Size = 0\<rparr>,
       compressed_blob = None\<rparr>, clone_watcher_object = False, m_clone_ref = False,
       ref_count = 1\<rparr>"
  by (simp add: writer6_def step_defs Let_def)

lemma writer6_env1:
  "writer6 env1 =
     \<lparr>m_digest = [1, 2, 3, 4, 5, 6], GetState = kBlobStateDataWrite,
       DeletionQueued = False, m_syncing = False, m_inode = \<lparr>IsAllocated = False,
       IsExtentContainer = False, LZ4Compressed = False, next_node = 0,
       merkle_root_hash = replicate 32 0, blob_size = 6, block_count = 7, extent_count = 0,
       extents = []\<rparr>, m_map_index = 0, m_mapping = Some (replicate 7 0),
       m_readable_event = None, m_write_info = Some \<lparr>bytes_written = 0,
       wi_extents = [\<lparr>Start = 0, Length = 7\<rparr>], node_indices = [0],
       compressor = \<lparr>Compressing = True, Size = 0\<rparr>,
       compressed_blob = Some (replicate 6 0)\<rparr>, clone_watcher_object = False,
       m_clone_ref = False, ref_count = 1\<rparr>"
  by (simp add: writer6_def step_defs Let_def)

lemma written6_env0:
  "written6 env0 =
     (ZX_OK, 6,
      \<lparr>m_info = \<lparr>inode_count = 4, data_block_count = 16,
        alloc_block_count = 7, alloc_inode_count = 1\<rparr>,
        m_allocator = \<lparr>block_map = [True, True, True, True, True, True, True, False, False, False, False, False, False, False, False, False],
        node_map = [\<lparr>IsAllocated = True, IsExtentContainer = False, LZ4Compressed = False, next_node = 0, merkle_root_hash = [1, 2, 3, 4, 5, 6], blob_size = 6, block_count = 7, extent_count = 1, extents = [\<lparr>Start = 0, Length = 7\<rparr>]\<rparr>, \<lparr>IsAllocated = False, IsExtentContainer = False, LZ4Compressed = False, next_node = 0, merkle_root_hash = [], blob_size = 0, block_count = 0, extent_count = 0, extents = []\<rparr>, \<lparr>IsAllocated = False, IsExtentContainer = False, LZ4Compressed = False, next_node = 0, merkle_root_hash = [], blob_size = 0, block_count = 0, extent_count = 0, extents = []\<rparr>, \<lparr>IsAllocated = False, IsExtentContainer = False, LZ4Compressed = False, next_node = 0, merkle_root_hash = [], blob_size = 0, block_count = 0, extent_count = 0, extents = []\<rparr>]\<rparr>,
        m_writeback = Some \<lparr>capacity = 8,
        queued = [\<lparr>requests = [\<lparr>req_vmo = BlobVmo, relative_block = 0, absolute_block = 100, nblocks = 1\<rparr>, \<lparr>req_vmo = BlobVmo, relative_block = 1, absolute_block = 101, nblocks = 6\<rparr>], sync_complete = False, reset_status = None\<rparr>]\<rparr>,
        m_journal = Some [\<lparr>requests = [\<lparr>req_vmo = NodeMapVmo, relative_block = 0, absolute_block = 10, nblocks = 1\<rparr>, \<lparr>req_vmo = InfoVmo, relative_block = 0, absolute_block = 0, nblocks = 1\<rparr>, \<lparr>req_vmo = BlockMapVmo, relative_block = 0, absolute_block = 1, nblocks = 1\<rparr>, \<lparr>req_vmo = InfoVmo, relative_block = 0, absolute_block = 0, nblocks = 1\<rparr>], sync_complete = True, reset_status = None\<rparr>],
        m_open_hash = [], m_closed_hash = [], m_cache_policy = EvictImmediately\<rparr>,
      \<lparr>m_digest = [1, 2, 3, 4, 5, 6], GetState = kBlobStateReadable,
        DeletionQueued = False, m_syncing = True, m_inode = \<lparr>IsAllocated = False,
        IsExtentContainer = False, LZ4Compressed = False, next_node = 0,
        merkle_root_hash = [1, 2, 3, 4, 5, 6], blob_size = 6, block_count = 7,
        extent_count = 0, extents = []\<rparr>, m_map_index = 0,
        m_mapping = Some [7, 1, 2, 3, 4, 5, 6], m_readable_event = None,
        m_write_info = None, clone_watcher_object = False, m_clone_ref = False,
        ref_count = 1\<rparr>)"
  unfolding written6_def writer6_env0 by (simp add: step_defs Let_def)

lemma written6_env1:
  "written6 env1 =
     (ZX_OK, 6,
      \<lparr>m_info = \<lparr>inode_count = 4, data_block_count = 16,
        alloc_block_count = 4, alloc_inode_count = 1\<rparr>,
        m_allocator = \<lparr>block_map = [True, True, True, True, False, False, False, False, False, False, False, False, False, False, False, False],
        node_map = [\<lparr>IsAllocated = True, IsExtentContainer = False, LZ4Compressed = True, next_node = 0, merkle_root_hash = [1, 2, 3, 4, 5, 6], blob_size = 6, block_count = 4, extent_count = 1, extents = [\<lparr>Start = 0, Length = 4\<rparr>]\<rparr>, \<lparr>IsAllocated = False, IsExtentContainer = False, LZ4Compressed = False, next_node = 0, merkle_root_hash = [], blob_size = 0, block_count = 0, extent_count = 0, extents = []\<rparr>, \<lparr>IsAllocated = False, IsExtentContainer = False, LZ4Compressed = False, next_node = 0, merkle_root_hash = [], blob_size = 0, block_count = 0, extent_count = 0, extents = []\<rparr>, \<lparr>IsAllocated = False, IsExtentContainer = False, LZ4Compressed = False, next_node = 0, merkle_root_hash = [], blob_size = 0, block_count = 0, extent_count = 0, extents = []\<rparr>]\<rparr>,
        m_writeback = Some \<lparr>capacity = 8,
        queued = [\<lparr>requests = [\<lparr>req_vmo = BlobVmo, relative_block = 0, absolute_block = 100, nblocks = 1\<rparr>, \<lparr>req_vmo = CompressedVmo, relative_block = 0, absolute_block = 101, nblocks = 3\<rparr>], sync_complete = False, reset_status = None\<rparr>]\<rparr>,
        m_journal = Some [\<lparr>requests = [\<lparr>req_vmo = NodeMapVmo, relative_block = 0, absolute_block = 10, nblocks = 1\<rparr>, \<lparr>req_vmo = InfoVmo, relative_block = 0, absolute_block = 0, nblocks = 1\<rparr>, \<lparr>req_vmo = BlockMapVmo, relative_block = 0, absolute_block = 1, nblocks = 1\<rparr>, \<lparr>req_vmo = InfoVmo, relative_block = 0, absolute_block = 0, nblocks = 1\<rparr>], sync_complete = True, reset_status = None\<rparr>],
        m_open_hash = [], m_closed_hash = [], m_cache_policy = EvictImmediately\<rparr>,
      \<lparr>m_digest = [1, 2, 3, 4, 5, 6], GetState = kBlobStateReadable,
        DeletionQueued = False, m_syncing = True, m_inode = \<lparr>IsAllocated = False,
        IsExtentContainer = False, LZ4Compressed = True, next_node = 0,
        merkle_root_hash = [1, 2, 3, 4, 5, 6], blob_size = 6, block_count = 4,
        extent_count = 0, extents = []\<rparr>, m_map_index = 0,
        m_mapping = Some [7, 1, 2, 3, 4, 5, 6], m_readable_event = None,
        m_write_info = None, clone_watcher_object = False, m_clone_ref = False,
        ref_count = 1\<rparr>)"
  unfolding written6_def writer6_env1 by (simp add: step_defs Let_def)

lemma bs6_env0:
  "bs6 env0 =
     \<lparr>m_info = \<lparr>inode_count = 4, data_block_count = 16,
       alloc_block_count = 7, alloc_inode_count = 1\<rparr>,
       m_allocator = \<lparr>block_map = [True, True, True, True, True, True, True, False, False, False, False, False, False, False, False, False],
       node_map = [\<lparr>IsAllocated = True, IsExtentContainer = False, LZ4Compressed = False, next_node = 0, merkle_root_hash = [1, 2, 3, 4, 5, 6], blob_size = 6, block_count = 7, extent_count = 1, extents = [\<lparr>Start = 0, Length = 7\<rparr>]\<rparr>, \<lparr>IsAllocated = False, IsExtentContainer = False, LZ4Compressed = False, next_node = 0, merkle_root_hash = [], blob_size = 0, block_count = 0, extent_count = 0, extents = []\<rparr>, \<lparr>IsAllocated = False, IsExtentContainer = False, LZ4Compressed = False, next_node = 0, merkle_root_hash = [], blob_size = 0, block_count = 0, extent_count = 0, extents = []\<rparr>, \<lparr>IsAllocated = False, IsExtentContainer = False, LZ4Compressed = False, next_node = 0, merkle_root_hash = [], blob_size = 0, block_count = 0, extent_count = 0, extents = []\<rparr>]\<rparr>,
       m_writeback = Some \<lparr>capacity = 8,
       queued = [\<lparr>requests = [\<lparr>req_vmo = BlobVmo, relative_block = 0, absolute_block = 100, nblocks = 1\<rparr>, \<lparr>req_vmo = BlobVmo, relative_block = 1, absolute_block = 101, nblocks = 6\<rparr>], sync_complete = False, reset_status = None\<rparr>]\<rparr>,
       m_journal = Some [\<lparr>requests = [\<lparr>req_vmo = NodeMapVmo, relative_block = 0, absolute_block = 10, nblocks = 1\<rparr>, \<lparr>req_vmo = InfoVmo, relative_block = 0, absolute_block = 0, nblocks = 1\<rparr>, \<lparr>req_vmo = BlockMapVmo, relative_block = 0, absolute_block = 1, nblocks = 1\<rparr>, \<lparr>req_vmo = InfoVmo, relative_block = 0, absolute_block = 0, nblocks = 1\<rparr>], sync_complete = True, reset_status = None\<rparr>],
       m_open_hash = [], m_closed_hash = [], m_cache_policy = EvictImmediately\<rparr>"
  unfolding bs6_def written6_env0 by simp

lemma reader6_env0:
  "reader6 env0 =
     \<lparr>m_digest = [1, 2, 3, 4, 5, 6], GetState = kBlobStateReadable,
       DeletionQueued = False, m_syncing = True, m_inode = \<lparr>IsAllocated = False,
       IsExtentContainer = False, LZ4Compressed = False, next_node = 0,
       merkle_root_hash = [1, 2, 3, 4, 5, 6], blob_size = 6, block_count = 7,
       extent_count = 0, extents = []\<rparr>, m_map_index = 0,
       m_mapping = Some [7, 1, 2, 3, 4, 5, 6], m_readable_event = None,
       m_write_info = None, clone_watcher_object = False, m_clone_ref = False,
       ref_count = 1\<rparr>"
  unfolding reader6_def written6_env0 by simp

lemma closed6_env0:
  "closed6 env0 =
     \<lparr>m_digest = [1, 2, 3, 4, 5, 6], GetState = kBlobStateReadable,
       DeletionQueued = False, m_syncing = True, m_inode = \<lparr>IsAllocated = False,
       IsExtentContainer = False, LZ4Compressed = False, next_node = 0,
       merkle_root_hash = [1, 2, 3, 4, 5, 6], blob_size = 6, block_count = 7,
       extent_count = 0, extents = []\<rparr>, m_map_index = 0, m_mapping = None,
       m_readable_event = None, m_write_info = None, clone_watcher_object = False,
       m_clone_ref = False, ref_count = 1\<rparr>"
  unfolding closed6_def reader6_env0 by (simp add: TearDown_def BlobCloseHandles_def)

lemma bs6_env1:
  "bs6 env1 =
     \<lparr>m_info = \<lparr>inode_count = 4, data_block_count = 16,
       alloc_block_count = 4, alloc_inode_count = 1\<rparr>,
       m_allocator = \<lparr>block_map = [True, True, True, True, False, False, False, False, False, False, False, False, False, False, False, False],
       node_map = [\<lparr>IsAllocated = True, IsExtentContainer = False, LZ4Compressed = True, next_node = 0, merkle_root_hash = [1, 2, 3, 4, 5, 6], blob_size = 6, block_count = 4, extent_count = 1, extents = [\<lparr>Start = 0, Length = 4\<rparr>]\<rparr>, \<lparr>IsAllocated = False, IsExtentContainer = False, LZ4Compressed = False, next_node = 0, merkle_root_hash = [], blob_size = 0, block_count = 0, extent_count = 0, extents = []\<rparr>, \<lparr>IsAllocated = False, IsExtentContainer = False, LZ4Compressed = False, next_node = 0, merkle_root_hash = [], blob_size = 0, block_count = 0, extent_count = 0, extents = []\<rparr>, \<lparr>IsAllocated = False, IsExtentContainer = False, LZ4Compressed = False, next_node = 0, merkle_root_hash = [], blob_size = 0, block_count = 0, extent_count = 0, extents = []\<rparr>]\<rparr>,
       m_writeback = Some \<lparr>capacity = 8,
       queued = [\<lparr>requests = [\<lparr>req_vmo = BlobVmo, relative_block = 0, absolute_block = 100, nblocks = 1\<rparr>, \<lparr>req_vmo = CompressedVmo, relative_block = 0, absolute_block = 101, nblocks = 3\<rparr>], sync_complete = False, reset_status = None\<rparr>]\<rparr>,
       m_journal = Some [\<lparr>requests = [\<lparr>req_vmo = NodeMapVmo, relative_block = 0, absolute_block = 10, nblocks = 1\<rparr>, \<lparr>req_vmo = InfoVmo, relative_block = 0, absolute_block = 0, nblocks = 1\<rparr>, \<lparr>req_vmo = BlockMapVmo, relative_block = 0, absolute_block = 1, nblocks = 1\<rparr>, \<lparr>req_vmo = InfoVmo, relative_block = 0, absolute_block = 0, nblocks = 1\<rparr>], sync_complete = True, reset_status = None\<rparr>],
       m_open_hash = [], m_closed_hash = [], m_cache_policy = EvictImmediately\<rparr>"
  unfolding bs6_def written6_env1 by simp

lemma reader6_env1:
  "reader6 env1 =
     \<lparr>m_digest = [1, 2, 3, 4, 5, 6], GetState = kBlobStateReadable,
       DeletionQueued = False, m_syncing = True, m_inode = \<lparr>IsAllocated = False,
       IsExtentContainer = False, LZ4Compressed = True, next_node = 0,
       merkle_root_hash = [1, 2, 3, 4, 5, 6], blob_size = 6, block_count = 4,
       extent_count = 0, extents = []\<rparr>, m_map_index = 0,
       m_mapping = Some [7, 1, 2, 3, 4, 5, 6], m_readable_event = None,
       m_write_info = None, clone_watcher_object = False, m_clone_ref = False,
       ref_count = 1\<rparr>"
  unfolding reader6_def written6_env1 by simp

lemma closed6_env1:
  "closed6 env1 =
     \<lparr>m_digest = [1, 2, 3, 4, 5, 6], GetState = kBlobStateReadable,
       DeletionQueued = False, m_syncing = True, m_inode = \<lparr>IsAllocated = False,
       IsExtentContainer = False, LZ4Compressed = True, next_node = 0,
       merkle_root_hash = [1, 2, 3, 4, 5, 6], blob_size = 6, block_count = 4,
       extent_count = 0, extents = []\<rparr>, m_map_index = 0, m_mapping = None,
       m_readable_event = None, m_write_info = None, clone_watcher_object = False,
       m_clone_ref = False, ref_count = 1\<rparr>"
  unfolding closed6_def reader6_env1 by (simp add: TearDown_def BlobCloseHandles_def)


section \<open>Readback: the initialisation returns and keeps the inode\<close>

lemma StreamBlocks_total:
  "(\<forall>a b c s. stream a b c s \<noteq> None) \<Longrightarrow> StreamBlocks it n stream s \<noteq> None"
proof (induction it n stream s rule: StreamBlocks.induct)
  case (1 it n stream s)
  note tot = "1.prems"
  show ?case
  proof (cases "n = 0")
    case True
    then show ?thesis by (simp add: StreamBlocks.simps)
  next
    case n: False
    show ?thesis
    proof (cases "it_extents it")
      case Nil
      with n show ?thesis by (simp add: StreamBlocks.simps)
    next
      case (Cons x xs)
      show ?thesis
      proof (cases "Length x = 0")
        case True
        with n Cons "1.IH"(1) tot show ?thesis
          by (subst StreamBlocks.simps) simp
      next
        case lx: False
        show ?thesis
        proof (cases "Length x \<le> n")
          case True
          from tot obtain st s' where r: "stream (BlockIndex it) (Start x) (Length x) s = Some (st, s')"
            by fastforce
          with n Cons lx True "1.IH"(2)[OF n Cons lx True r refl] tot show ?thesis
            by (subst StreamBlocks.simps) simp
        next
          case False
          from tot obtain st s' where r: "stream (BlockIndex it) (Start x) n s = Some (st, s')"
            by fastforce
          with n Cons lx False show ?thesis
            by (subst StreamBlocks.simps) simp
        qed
      qed
    qed
  qed
qed

lemma StreamBlocks_NoneD:
  "StreamBlocks it n stream s = None \<Longrightarrow> \<exists>a b c s. stream a b c s = None"
proof (rule ccontr)
  assume n: "StreamBlocks it n stream s = None" and "\<not> (\<exists>a b c s. stream a b c s = None)"
  then have "\<forall>a b c s. stream a b c s \<noteq> None" by simp
  from StreamBlocks_total [OF this, of it n s] n show False by simp
qed

lemma length_blit [simp]: "length (blit buf off src) = length buf"
  by (simp add: blit_def)

lemma length_read_blocks [simp]: "length (read_blocks e v reqs buf) = length buf"
proof -
  have "length (foldl f buf reqs) = length buf"
    if "\<And>b r. length (f b r) = length b" for f :: "bytes \<Rightarrow> request \<Rightarrow> bytes"
    using that by (induction reqs arbitrary: buf) auto
  then show ?thesis by (simp add: read_blocks_def)
qed

lemma InitCompressed_read_total: "InitCompressed_read e bs vn \<noteq> None"
  unfolding InitCompressed_read_def Let_def
  by (auto split: option.splits prod.splits dest!: StreamBlocks_NoneD)

lemma InitCompressed_read_inode:
  "InitCompressed_read e bs vn = Some (st, c, vn1) \<Longrightarrow>
     m_inode vn1 = m_inode vn \<and> GetState vn1 = GetState vn
     \<and> map_option length (m_mapping vn1) = map_option length (m_mapping vn)"
  unfolding InitCompressed_read_def Let_def
  by (auto split: option.splits prod.splits if_splits simp: option.map_comp comp_def)

lemma InitCompressed_total: "InitCompressed e bs vn \<noteq> None"
  by (auto simp: InitCompressed_def Let_def InitCompressed_read_total
           split: option.splits prod.splits)

lemma InitCompressed_inode:
  "InitCompressed e bs vn = Some (st, vn1) \<Longrightarrow>
     m_inode vn1 = m_inode vn \<and> GetState vn1 = GetState vn
     \<and> map_option length (m_mapping vn1) = map_option length (m_mapping vn)"
  by (auto simp: InitCompressed_def Let_def option.map_comp comp_def
           split: option.splits prod.splits if_splits dest!: InitCompressed_read_inode)

lemma InitUncompressed_total: "InitUncompressed e bs vn \<noteq> None"
  unfolding InitUncompressed_def Let_def
  by (auto split: option.splits prod.splits dest!: StreamBlocks_NoneD)

lemma InitUncompressed_inode:
  "InitUncompressed e bs vn = Some (st, vn1) \<Longrightarrow>
     m_inode vn1 = m_inode vn \<and> GetState vn1 = GetState vn
     \<and> map_option length (m_mapping vn1) = map_option length (m_mapping vn)"
  unfolding InitUncompressed_def Let_def
  by (auto split: option.splits prod.splits if_splits simp: option.map_comp comp_def)

lemma InitVmos_total: "InitVmos e bs vn \<noteq> None"
  by (auto simp: InitVmos_def Let_def InitCompressed_total InitUncompressed_total
           split: option.splits prod.splits)

lemma InitVmos_inode:
  "InitVmos e bs vn = Some (st, vn1) \<Longrightarrow> m_inode vn1 = m_inode vn \<and> GetState vn1 = GetState vn"
  by (auto simp: InitVmos_def Let_def BlobCloseHandles_def
           split: option.splits prod.splits if_splits
           dest!: InitCompressed_inode InitUncompressed_inode)

lemma InitVmos_fresh_length:
  "InitVmos e bs vn = Some (ZX_OK, vn1) \<Longrightarrow> m_mapping vn = None \<Longrightarrow>
   BlobDataBlocks e (m_inode vn) + MerkleTreeBlocks e (m_inode vn) \<noteq> 0 \<Longrightarrow>
   map_option length (m_mapping vn1)
     = Some ((BlobDataBlocks e (m_inode vn) + MerkleTreeBlocks e (m_inode vn)) * kBlobfsBlockSize e)"
  by (auto simp: InitVmos_def Let_def BlobCloseHandles_def
           split: option.splits prod.splits if_splits
           dest!: InitCompressed_inode InitUncompressed_inode)

lemma round_up_ge: "0 < m \<Longrightarrow> x \<le> round_up x m div m * m"
proof -
  assume m: "0 < m"
  have "x \<le> (x + m - 1) div m * m"
  proof -
    have "(x + m - 1) mod m < m" using m by simp
    moreover have "(x + m - 1) div m * m + (x + m - 1) mod m = x + m - 1" by simp
    ultimately show ?thesis by linarith
  qed
  then show ?thesis using m by (simp add: round_up_def)
qed

section \<open>C10: no clone of the null blob\<close>

text \<open>
  C10. \<open>CloneVmo\<close> on a blob whose \<open>blob_size\<close> is 0 answers \<open>ZX_ERR_BAD_STATE\<close>, whatever
  the state of the blob, also \<open>kBlobStateReadable\<close>; and \<open>CloneVmo\<close> answers \<open>ZX_OK\<close> only
  for a blob in state \<open>kBlobStateReadable\<close> with \<open>blob_size > 0\<close>.
\<close>

theorem CloneVmo_null_blob:
  "(blob_size (m_inode vn) = 0 \<longrightarrow> CloneVmo e bs vn = Some (ZX_ERR_BAD_STATE, False, vn))
   \<and> (\<forall>h vn'. CloneVmo e bs vn = Some (ZX_OK, h, vn')
         \<longrightarrow> GetState vn = kBlobStateReadable \<and> 0 < blob_size (m_inode vn))"
  by (auto simp: CloneVmo_def split: if_splits option.splits)

theorem CloneVmo_null_blob_witness:
  "GetState null_blob = kBlobStateReadable \<and> blob_size (m_inode null_blob) = 0
   \<and> CloneVmo env0 bs0 null_blob = Some (ZX_ERR_BAD_STATE, False, null_blob)"
  using CloneVmo_null_blob [of null_blob env0 bs0]
  by (simp add: run_defs Let_def)


section \<open>C6: reading a readable blob\<close>

text \<open>
  C6, as the code has it. In any state other than \<open>kBlobStateReadable\<close>,
  \<open>ReadInternal\<close> answers \<open>ZX_ERR_BAD_STATE\<close>. A readable null blob gives \<open>ZX_OK\<close> with
  0 bytes. For a readable blob with \<open>blob_size > 0\<close> the buffers are initialised first
  (\<open>InitVmos\<close>: the blocks are read from the device, decompressed and verified), which
  always returns; when that fails, its status is the answer of the read, at every
  offset, and \<open>*actual\<close> is not written. When it succeeds, a read at
  \<open>off \<ge> blob_size\<close> gives \<open>ZX_OK\<close> with 0 bytes, and a read at \<open>off < blob_size\<close> gives
  \<open>ZX_OK\<close> with exactly \<open>min len (blob_size - off)\<close> bytes, those at \<open>off\<close> in the data
  region, which starts after the Merkle region, of a buffer that holds both regions;
  the buffer does whenever this read has created it.
\<close>

theorem ReadInternal_spec:
  "(GetState vn \<noteq> kBlobStateReadable \<longrightarrow>
      ReadInternal e bs vn len off = Some (ZX_ERR_BAD_STATE, None, [], vn))
   \<and> (GetState vn = kBlobStateReadable \<and> blob_size (m_inode vn) = 0 \<longrightarrow>
      ReadInternal e bs vn len off = Some (ZX_OK, Some 0, [], vn))
   \<and> (GetState vn = kBlobStateReadable \<and> 0 < blob_size (m_inode vn) \<longrightarrow>
      (\<exists>status vn1. InitVmos e bs vn = Some (status, vn1)
         \<and> (status \<noteq> ZX_OK \<longrightarrow> ReadInternal e bs vn len off = Some (status, None, [], vn1))
         \<and> (status = ZX_OK \<and> blob_size (m_inode vn) \<le> off \<longrightarrow>
               ReadInternal e bs vn len off = Some (ZX_OK, Some 0, [], vn1))
         \<and> (status = ZX_OK \<and> m_mapping vn = None \<and> 0 < kBlobfsBlockSize e \<longrightarrow>
               MerkleTreeBlocks e (m_inode vn) * kBlobfsBlockSize e + blob_size (m_inode vn)
                 \<le> length (GetMerkle vn1))
         \<and> (status = ZX_OK \<and> off < blob_size (m_inode vn)
              \<and> MerkleTreeBlocks e (m_inode vn) * kBlobfsBlockSize e + blob_size (m_inode vn)
                    \<le> length (GetMerkle vn1) \<longrightarrow>
               ReadInternal e bs vn len off =
                 Some (ZX_OK, Some (min len (blob_size (m_inode vn) - off)),
                       take (min len (blob_size (m_inode vn) - off)) (drop off (GetData e vn1)),
                       vn1))))"
proof (intro conjI impI)
  assume "GetState vn \<noteq> kBlobStateReadable"
  then show "ReadInternal e bs vn len off = Some (ZX_ERR_BAD_STATE, None, [], vn)"
    by (simp add: ReadInternal_def)
next
  assume "GetState vn = kBlobStateReadable \<and> blob_size (m_inode vn) = 0"
  then show "ReadInternal e bs vn len off = Some (ZX_OK, Some 0, [], vn)"
    by (simp add: ReadInternal_def)
next
  assume a: "GetState vn = kBlobStateReadable \<and> 0 < blob_size (m_inode vn)"
  obtain status vn1 where iv: "InitVmos e bs vn = Some (status, vn1)"
    using InitVmos_total [of e bs vn] by auto
  from InitVmos_inode [OF iv] have ino: "m_inode vn1 = m_inode vn" by simp
  let ?mb = "MerkleTreeBlocks e (m_inode vn) * kBlobfsBlockSize e"
  let ?sz = "blob_size (m_inode vn)"
  have fail: "ReadInternal e bs vn len off = Some (status, None, [], vn1)" if "status \<noteq> ZX_OK"
    using a iv that by (simp add: ReadInternal_def)
  have eof: "ReadInternal e bs vn len off = Some (ZX_OK, Some 0, [], vn1)"
    if "status = ZX_OK \<and> ?sz \<le> off"
    using a iv ino that by (simp add: ReadInternal_def)
  have fresh: "?mb + ?sz \<le> length (GetMerkle vn1)"
    if h: "status = ZX_OK \<and> m_mapping vn = None \<and> 0 < kBlobfsBlockSize e"
  proof -
    from h have B: "0 < kBlobfsBlockSize e" by simp
    have "?sz \<le> BlobDataBlocks e (m_inode vn) * kBlobfsBlockSize e"
      using round_up_ge [OF B, of ?sz] by (simp add: BlobDataBlocks_def)
    moreover from this a B have "BlobDataBlocks e (m_inode vn) + MerkleTreeBlocks e (m_inode vn) \<noteq> 0"
      by (cases "BlobDataBlocks e (m_inode vn)") auto
    with InitVmos_fresh_length [of e bs vn vn1] iv h
    have "map_option length (m_mapping vn1)
            = Some ((BlobDataBlocks e (m_inode vn) + MerkleTreeBlocks e (m_inode vn)) * kBlobfsBlockSize e)"
      by simp
    then have "length (GetMerkle vn1)
            = (BlobDataBlocks e (m_inode vn) + MerkleTreeBlocks e (m_inode vn)) * kBlobfsBlockSize e"
      by (auto simp: GetMerkle_def split: option.splits)
    ultimately show ?thesis by (simp add: add_mult_distrib)
  qed
  have rd: "ReadInternal e bs vn len off =
              Some (ZX_OK, Some (min len (?sz - off)),
                    take (min len (?sz - off)) (drop off (GetData e vn1)), vn1)"
    if h: "status = ZX_OK \<and> off < ?sz \<and> ?mb + ?sz \<le> length (GetMerkle vn1)"
  proof -
    from h obtain m where m: "m_mapping vn1 = Some m"
      by (cases "m_mapping vn1") (auto simp: GetMerkle_def)
    with h have len: "?mb + ?sz \<le> length m" by (simp add: GetMerkle_def)
    have "min len (?sz - off) \<le> ?sz - off" by simp
    with len h have "?mb + off + min len (?sz - off) \<le> length m" by linarith
    then have vr: "vmo_read (Some m) (?mb + off) (min len (?sz - off))
                     = (ZX_OK, take (min len (?sz - off)) (drop (?mb + off) m))"
      by (simp add: vmo_read_def)
    have gd: "drop off (GetData e vn1) = drop (?mb + off) m"
      using m ino by (simp add: GetData_def add.commute)
    show ?thesis
    proof (cases "?sz - off < len")
      case True
      then have mn: "min len (?sz - off) = ?sz - off" by simp
      from a iv ino h m True vr [unfolded mn] gd show ?thesis
        by (simp add: ReadInternal_def Let_def mn)
    next
      case False
      then have mn: "min len (?sz - off) = len" by simp
      from a iv ino h m False vr [unfolded mn] gd show ?thesis
        by (simp add: ReadInternal_def Let_def mn)
    qed
  qed
  show "\<exists>status vn1. InitVmos e bs vn = Some (status, vn1)
         \<and> (status \<noteq> ZX_OK \<longrightarrow> ReadInternal e bs vn len off = Some (status, None, [], vn1))
         \<and> (status = ZX_OK \<and> blob_size (m_inode vn) \<le> off \<longrightarrow>
               ReadInternal e bs vn len off = Some (ZX_OK, Some 0, [], vn1))
         \<and> (status = ZX_OK \<and> m_mapping vn = None \<and> 0 < kBlobfsBlockSize e \<longrightarrow>
               ?mb + ?sz \<le> length (GetMerkle vn1))
         \<and> (status = ZX_OK \<and> off < blob_size (m_inode vn)
              \<and> ?mb + ?sz \<le> length (GetMerkle vn1) \<longrightarrow>
               ReadInternal e bs vn len off =
                 Some (ZX_OK, Some (min len (blob_size (m_inode vn) - off)),
                       take (min len (blob_size (m_inode vn) - off)) (drop off (GetData e vn1)),
                       vn1))"
    using iv fail eof fresh rd by blast
qed

text \<open>
  C6 as the claim states it does not hold: the blob of six bytes is readable, but with
  a wrong byte on the device neither the read at the end of the blob nor the read
  inside it is \<open>ZX_OK\<close>; both answer \<open>ZX_ERR_IO_DATA_INTEGRITY\<close> and leave \<open>*actual\<close>
  unwritten.
\<close>

theorem ReadInternal_device_corrupt:
  "GetState (closed6 env0) = kBlobStateReadable
   \<and> blob_size (m_inode (closed6 env0)) = 6
   \<and> map_option fst (ReadInternal env_corrupt (bs6 env0) (closed6 env0) 1 6)
       = Some ZX_ERR_IO_DATA_INTEGRITY
   \<and> map_option (fst \<circ> snd) (ReadInternal env_corrupt (bs6 env0) (closed6 env0) 1 6) = Some None
   \<and> map_option fst (ReadInternal env_corrupt (bs6 env0) (closed6 env0) 4 3)
       = Some ZX_ERR_IO_DATA_INTEGRITY
   \<and> map_option (fst \<circ> snd) (ReadInternal env_corrupt (bs6 env0) (closed6 env0) 4 3) = Some None"
  unfolding closed6_env0 bs6_env0
  by (simp add: step_defs Let_def)

theorem ReadInternal_spec_witness:
  "GetState (closed6 env0) = kBlobStateReadable
   \<and> blob_size (m_inode (closed6 env0)) = 6
   \<and> m_mapping (closed6 env0) = None
   \<and> map_option fst (InitVmos env0 (bs6 env0) (closed6 env0)) = Some ZX_OK
   \<and> map_option (fst \<circ> snd) (ReadInternal env0 (bs6 env0) (closed6 env0) 1 6) = Some (Some 0)
   \<and> map_option (fst \<circ> snd \<circ> snd) (ReadInternal env0 (bs6 env0) (closed6 env0) 4 3) = Some [4, 5, 6]
   \<and> map_option fst (ReadInternal env0 (bs6 env0) (writer6 env0) 4 3) = Some ZX_ERR_BAD_STATE"
  using ReadInternal_spec [of "closed6 env0" env0 "bs6 env0" 4 3]
        ReadInternal_spec [of "closed6 env0" env0 "bs6 env0" 1 6]
        ReadInternal_spec [of "writer6 env0" env0 "bs6 env0" 4 3]
  unfolding closed6_env0 bs6_env0 writer6_env0
  by (simp add: step_defs Let_def)



section \<open>C4: the decompressed length\<close>

text \<open>
  C4. The initialisation of a compressed blob decompresses what it has read from the
  device, and when the decompressor succeeds with a length other than \<open>blob_size\<close>,
  the status that \<open>InitCompressed\<close> returns is \<open>ZX_ERR_IO_DATA_INTEGRITY\<close>. So
  \<open>InitCompressed\<close> answers \<open>ZX_OK\<close> only when the decompressed length is exactly
  \<open>blob_size\<close>, and the first read of a readable compressed blob succeeds only in that
  case.
\<close>

theorem InitCompressed_exact_length:
  "(InitCompressed_read e bs vn = Some (ZX_OK, compressed, vn1)
      \<and> Decompress e compressed (blob_size (m_inode vn)) = (ZX_OK, out)
      \<and> length out \<noteq> blob_size (m_inode vn)
      \<longrightarrow> map_option fst (InitCompressed e bs vn) = Some ZX_ERR_IO_DATA_INTEGRITY)
   \<and> (InitCompressed e bs vn = Some (ZX_OK, vn') \<longrightarrow>
        (\<exists>compressed vn1 out.
            InitCompressed_read e bs vn = Some (ZX_OK, compressed, vn1)
            \<and> Decompress e compressed (blob_size (m_inode vn)) = (ZX_OK, out)
            \<and> length out = blob_size (m_inode vn)))
   \<and> (GetState vn = kBlobStateReadable \<and> LZ4Compressed (m_inode vn) \<and> m_mapping vn = None
        \<and> 0 < blob_size (m_inode vn) \<and> 0 < kBlobfsBlockSize e
        \<and> ReadInternal e bs vn len off = Some (ZX_OK, actual, data, vn'') \<longrightarrow>
        (\<exists>compressed vn1 out.
            InitCompressed_read e bs
              (vn\<lparr>m_mapping := Some (replicate
                 ((BlobDataBlocks e (m_inode vn) + MerkleTreeBlocks e (m_inode vn))
                    * kBlobfsBlockSize e) 0)\<rparr>) = Some (ZX_OK, compressed, vn1)
            \<and> Decompress e compressed (blob_size (m_inode vn)) = (ZX_OK, out)
            \<and> length out = blob_size (m_inode vn)))"
proof (intro conjI impI)
  assume "InitCompressed_read e bs vn = Some (ZX_OK, compressed, vn1)
      \<and> Decompress e compressed (blob_size (m_inode vn)) = (ZX_OK, out)
      \<and> length out \<noteq> blob_size (m_inode vn)"
  then show "map_option fst (InitCompressed e bs vn) = Some ZX_ERR_IO_DATA_INTEGRITY"
    by (simp add: InitCompressed_def Let_def)
next
  have ok: "\<exists>compressed vn1 out.
            InitCompressed_read e bs v = Some (ZX_OK, compressed, vn1)
            \<and> Decompress e compressed (blob_size (m_inode v)) = (ZX_OK, out)
            \<and> length out = blob_size (m_inode v)"
    if "InitCompressed e bs v = Some (ZX_OK, w)" for v w
    using that
    by (auto simp: InitCompressed_def Let_def split: option.splits prod.splits if_splits)
  {
    assume "InitCompressed e bs vn = Some (ZX_OK, vn')"
    then show "\<exists>compressed vn1 out.
            InitCompressed_read e bs vn = Some (ZX_OK, compressed, vn1)
            \<and> Decompress e compressed (blob_size (m_inode vn)) = (ZX_OK, out)
            \<and> length out = blob_size (m_inode vn)"
      by (rule ok)
  next
    assume h: "GetState vn = kBlobStateReadable \<and> LZ4Compressed (m_inode vn) \<and> m_mapping vn = None
        \<and> 0 < blob_size (m_inode vn) \<and> 0 < kBlobfsBlockSize e
        \<and> ReadInternal e bs vn len off = Some (ZX_OK, actual, data, vn'')"
    then have B: "0 < kBlobfsBlockSize e" by simp
    have "blob_size (m_inode vn) \<le> BlobDataBlocks e (m_inode vn) * kBlobfsBlockSize e"
      using round_up_ge [OF B, of "blob_size (m_inode vn)"] by (simp add: BlobDataBlocks_def)
    with h have nz: "BlobDataBlocks e (m_inode vn) + MerkleTreeBlocks e (m_inode vn) \<noteq> 0"
      by (cases "BlobDataBlocks e (m_inode vn)") auto
    from h obtain vnr where iv: "InitVmos e bs vn = Some (ZX_OK, vnr)"
      by (auto simp: ReadInternal_def split: option.splits prod.splits if_splits)
    let ?buf = "replicate ((BlobDataBlocks e (m_inode vn) + MerkleTreeBlocks e (m_inode vn))
                             * kBlobfsBlockSize e) (0 :: byte)"
    from iv h nz obtain w where "InitCompressed e bs (vn\<lparr>m_mapping := Some ?buf\<rparr>) = Some (ZX_OK, w)"
      by (auto simp: InitVmos_def Let_def split: option.splits prod.splits if_splits)
    from ok [OF this] show "\<exists>compressed vn1 out.
            InitCompressed_read e bs (vn\<lparr>m_mapping := Some ?buf\<rparr>) = Some (ZX_OK, compressed, vn1)
            \<and> Decompress e compressed (blob_size (m_inode vn)) = (ZX_OK, out)
            \<and> length out = blob_size (m_inode vn)"
      by auto
  }
qed

theorem InitCompressed_exact_length_witness:
  "map_option fst (InitCompressed_read env_short (bs6 env1) (closed6 env1\<lparr>m_mapping := Some (replicate 7 0)\<rparr>))
     = Some ZX_OK
   \<and> Decompress env_short [1, 2, 3] 6 = (ZX_OK, [1, 2, 3, 4, 5])
   \<and> blob_size (m_inode (closed6 env1)) = 6
   \<and> map_option fst (InitCompressed env_short (bs6 env1) (closed6 env1\<lparr>m_mapping := Some (replicate 7 0)\<rparr>))
     = Some ZX_ERR_IO_DATA_INTEGRITY
   \<and> map_option fst (ReadInternal env_short (bs6 env1) (closed6 env1) 4 1) = Some ZX_ERR_IO_DATA_INTEGRITY
   \<and> map_option fst (ReadInternal env1 (bs6 env1) (closed6 env1) 4 1) = Some ZX_OK"
  using InitCompressed_exact_length
          [of env_short "bs6 env1" "closed6 env1\<lparr>m_mapping := Some (replicate 7 0)\<rparr>" "[1, 2, 3]"
              "closed6 env1\<lparr>m_mapping := Some [7, 0, 0, 0, 0, 0, 0]\<rparr>" "[1, 2, 3, 4, 5]"]
  unfolding closed6_env1 bs6_env1
  by (simp add: step_defs Let_def)



section \<open>C8: allocation accounting\<close>

lemma length_set_bits [simp]: "length (set_bits v s l bm) = length bm"
  by (simp add: set_bits_def)

lemma nth_set_bits:
  "i < length bm \<Longrightarrow> set_bits v s l bm ! i = (if s \<le> i \<and> i < s + l then v else bm ! i)"
  by (simp add: set_bits_def)

lemma set_bits_eq:
  assumes "s + l \<le> length bm"
  shows "set_bits v s l bm = take s bm @ replicate l v @ drop (s + l) bm"
proof (rule nth_equalityI)
  show "length (set_bits v s l bm) = length (take s bm @ replicate l v @ drop (s + l) bm)"
    using assms by simp
next
  fix i assume "i < length (set_bits v s l bm)"
  then have i: "i < length bm" by simp
  show "set_bits v s l bm ! i = (take s bm @ replicate l v @ drop (s + l) bm) ! i"
    using i assms by (auto simp: nth_set_bits nth_append min_def)
qed

lemma popcount_append [simp]: "popcount (xs @ ys) = popcount xs + popcount ys"
  by (simp add: popcount_def)

lemma popcount_replicate [simp]: "popcount (replicate l v) = (if v then l else 0)"
  by (simp add: popcount_def)

lemma popcount_none: "\<not> list_ex (\<lambda>b. b) xs \<Longrightarrow> popcount xs = 0"
  by (induction xs) (auto simp: popcount_def)

lemma popcount_all: "list_all (\<lambda>b. b) xs \<Longrightarrow> popcount xs = length xs"
  by (induction xs) (auto simp: popcount_def)

lemma popcount_le: "popcount xs \<le> length xs"
  by (simp add: popcount_def)

lemma popcount_split:
  "s + l \<le> length bm \<Longrightarrow>
   popcount bm = popcount (take s bm) + popcount (take l (drop s bm)) + popcount (drop (s + l) bm)"
proof -
  assume a: "s + l \<le> length bm"
  have "bm = take s bm @ take l (drop s bm) @ drop (s + l) bm"
    by (metis add.commute append_take_drop_id drop_drop)
  then have "popcount bm = popcount (take s bm @ take l (drop s bm) @ drop (s + l) bm)" by simp
  then show ?thesis by (simp only: popcount_append)
qed

lemma popcount_mark:
  assumes "s + l \<le> length bm" "\<not> list_ex (\<lambda>b. b) (take l (drop s bm))"
  shows "popcount (set_bits True s l bm) = popcount bm + l"
  using assms popcount_split [OF assms(1)] by (simp add: set_bits_eq popcount_none)

lemma popcount_free:
  assumes "s + l \<le> length bm" "list_all (\<lambda>b. b) (take l (drop s bm))"
  shows "popcount (set_bits False s l bm) + l = popcount bm"
  using assms popcount_split [OF assms(1)] by (simp add: set_bits_eq popcount_all)

lemma allocated_nodes_update:
  assumes "i < length nm"
  shows "allocated_nodes (nm[i := n]) + (if IsAllocated (nm ! i) then 1 else 0)
           = allocated_nodes nm + (if IsAllocated n then 1 else 0)"
proof -
  have a: "nm = take i nm @ (nm ! i) # drop (Suc i) nm"
    using assms by (simp add: id_take_nth_drop)
  have b: "nm[i := n] = take i nm @ n # drop (Suc i) nm"
    using assms by (simp add: upd_conv_take_nth_drop)
  have "allocated_nodes nm = allocated_nodes (take i nm @ (nm ! i) # drop (Suc i) nm)"
    using a by simp
  then show ?thesis unfolding b by (simp add: allocated_nodes_def)
qed

lemma allocated_nodes_le: "allocated_nodes nm \<le> length nm"
  by (simp add: allocated_nodes_def)


lemma unat_lt_u64: "unat (w :: 64 word) < 2 ^ 64"
proof -
  have "unat w < 2 ^ LENGTH(64)" by (rule unsigned_less)
  then show ?thesis by simp
qed

lemma PersistBlocks_accounted:
  assumes r: "reserved_extent x bs" and inv: "blocks_accounted bs"
  shows "blocks_accounted (snd (PersistBlocks e wb x bs))"
proof -
  let ?bm = "block_map (m_allocator bs)"
  from r have rng: "Start x + Length x \<le> length ?bm"
    and free: "\<not> list_ex (\<lambda>b. b) (take (Length x) (drop (Start x) ?bm))"
    and sz: "length ?bm = unat (data_block_count (m_info bs))"
    by (simp_all add: reserved_extent_def)
  have pc: "popcount (set_bits True (Start x) (Length x) ?bm) = popcount ?bm + Length x"
    by (rule popcount_mark [OF rng free])
  have "popcount (set_bits True (Start x) (Length x) ?bm) \<le> length ?bm"
    using popcount_le [of "set_bits True (Start x) (Length x) ?bm"] by simp
  with pc sz have bound: "popcount ?bm + Length x \<le> unat (data_block_count (m_info bs))" by simp
  have lt: "unat (data_block_count (m_info bs)) < 2 ^ 64"
    by (rule unat_lt_u64)
  from bound lt have l: "Length x < 2 ^ 64" by simp
  then have ul: "unat (of_nat (Length x) :: 64 word) = Length x"
    by (simp add: unat_of_nat)
  from inv have c: "unat (alloc_block_count (m_info bs)) = popcount ?bm"
    by (simp add: blocks_accounted_def)
  have "unat (alloc_block_count (m_info bs) + of_nat (Length x))
          = unat (alloc_block_count (m_info bs)) + unat (of_nat (Length x) :: 64 word)"
    using bound lt c ul by (simp add: unat_add_lem [THEN iffD1])
  with c ul pc show ?thesis
    by (simp add: PersistBlocks_def Let_def blocks_accounted_def MarkBlocksAllocated_def)
qed

lemma FreeExtent_accounted:
  assumes inv: "blocks_accounted bs"
  shows "blocks_accounted (snd (FreeExtent e wb x bs))"
proof (cases "CheckBlocksAllocated (m_allocator bs) (Start x) (Start x + Length x)")
  case False
  with inv show ?thesis by (simp add: FreeExtent_def Let_def)
next
  case True
  let ?bm = "block_map (m_allocator bs)"
  from True have rng: "Start x + Length x \<le> length ?bm"
    and alld: "list_all (\<lambda>b. b) (take (Length x) (drop (Start x) ?bm))"
    by (simp_all add: CheckBlocksAllocated_def)
  have pc: "popcount (set_bits False (Start x) (Length x) ?bm) + Length x = popcount ?bm"
    by (rule popcount_free [OF rng alld])
  from inv have c: "unat (alloc_block_count (m_info bs)) = popcount ?bm"
    by (simp add: blocks_accounted_def)
  have lt: "unat (alloc_block_count (m_info bs)) < 2 ^ 64"
    by (rule unat_lt_u64)
  from pc c lt have l: "Length x < 2 ^ 64" and le: "Length x \<le> unat (alloc_block_count (m_info bs))"
    by simp_all
  from l have ul: "unat (of_nat (Length x) :: 64 word) = Length x"
    by (simp add: unat_of_nat)
  with le have "of_nat (Length x) \<le> alloc_block_count (m_info bs)"
    by (simp add: word_le_nat_alt)
  then have "unat (alloc_block_count (m_info bs) - of_nat (Length x))
          = unat (alloc_block_count (m_info bs)) - unat (of_nat (Length x) :: 64 word)"
    by (rule unat_sub)
  with c ul pc True show ?thesis
    by (simp add: FreeExtent_def Let_def blocks_accounted_def FreeBlocks_def)
qed

lemma PersistNode_accounted:
  assumes inv: "nodes_accounted bs"
    and i: "i < length (node_map (m_allocator bs))"
    and free: "\<not> IsAllocated (node_map (m_allocator bs) ! i)"
    and sz: "length (node_map (m_allocator bs)) = unat (inode_count (m_info bs))"
  shows "nodes_accounted
           (snd (PersistNode e wb i (bs\<lparr>m_allocator := MarkInodeAllocated i (m_allocator bs)\<rparr>)))"
proof -
  let ?nm = "node_map (m_allocator bs)"
  let ?n = "(?nm ! i)\<lparr>IsAllocated := True, IsExtentContainer := False, LZ4Compressed := False\<rparr>"
  from allocated_nodes_update [OF i, of ?n] free
  have an: "allocated_nodes (?nm[i := ?n]) = allocated_nodes ?nm + 1" by simp
  have "allocated_nodes (?nm[i := ?n]) \<le> length ?nm"
    using allocated_nodes_le [of "?nm[i := ?n]"] by simp
  with an sz have bound: "allocated_nodes ?nm + 1 \<le> unat (inode_count (m_info bs))" by simp
  have lt: "unat (inode_count (m_info bs)) < 2 ^ 64"
    by (rule unat_lt_u64)
  from inv have c: "unat (alloc_inode_count (m_info bs)) = allocated_nodes ?nm"
    by (simp add: nodes_accounted_def)
  have "unat (alloc_inode_count (m_info bs) + 1) = unat (alloc_inode_count (m_info bs)) + unat (1 :: 64 word)"
    using bound lt c by (simp add: unat_add_lem [THEN iffD1])
  with c an show ?thesis
    by (simp add: PersistNode_def Let_def nodes_accounted_def MarkInodeAllocated_def)
qed

lemma FreeNode_accounted:
  assumes inv: "nodes_accounted bs"
    and i: "i < length (node_map (m_allocator bs))"
    and used: "IsAllocated (node_map (m_allocator bs) ! i)"
  shows "nodes_accounted (snd (FreeNode e wb i bs))"
proof -
  let ?nm = "node_map (m_allocator bs)"
  let ?n = "(?nm ! i)\<lparr>IsAllocated := False, IsExtentContainer := False, LZ4Compressed := False\<rparr>"
  from allocated_nodes_update [OF i, of ?n] used
  have an: "allocated_nodes (?nm[i := ?n]) + 1 = allocated_nodes ?nm" by simp
  from inv have c: "unat (alloc_inode_count (m_info bs)) = allocated_nodes ?nm"
    by (simp add: nodes_accounted_def)
  with an have "1 \<le> unat (alloc_inode_count (m_info bs))" by simp
  then have "1 \<le> alloc_inode_count (m_info bs)"
    by (simp add: word_le_nat_alt)
  then have "unat (alloc_inode_count (m_info bs) - 1)
          = unat (alloc_inode_count (m_info bs)) - unat (1 :: 64 word)"
    by (rule unat_sub)
  with c an show ?thesis
    by (simp add: FreeNode_def Let_def nodes_accounted_def Allocator_FreeNode_def)
qed

text \<open>
  C8. \<open>PersistBlocks\<close> adds exactly the length of the extent to \<open>alloc_block_count\<close> and
  marks the blocks of the extent allocated; \<open>FreeExtent\<close> subtracts exactly the length
  of the extent and clears its blocks, and does so only when all of them were
  allocated (otherwise it changes nothing); \<open>PersistNode\<close> adds 1 to
  \<open>alloc_inode_count\<close> and \<open>FreeNode\<close> subtracts 1. Hence the accounting invariant is
  preserved: after \<open>PersistBlocks\<close> of a reserved extent and after \<open>FreeExtent\<close>,
  \<open>alloc_block_count\<close> is again the number of set bits of the block bitmap; after the
  commit of a free node (the allocator marks it, \<open>PersistNode\<close> counts it) and after
  \<open>FreeNode\<close> of an allocated node, \<open>alloc_inode_count\<close> is again the number of
  allocated nodes, primary inodes and containers alike.
\<close>

theorem allocation_accounting:
  "alloc_block_count (m_info (snd (PersistBlocks e wb x bs)))
      = alloc_block_count (m_info bs) + of_nat (Length x)
   \<and> block_map (m_allocator (snd (PersistBlocks e wb x bs)))
      = set_bits True (Start x) (Length x) (block_map (m_allocator bs))
   \<and> (CheckBlocksAllocated (m_allocator bs) (Start x) (Start x + Length x) \<longrightarrow>
        alloc_block_count (m_info (snd (FreeExtent e wb x bs)))
          = alloc_block_count (m_info bs) - of_nat (Length x)
        \<and> block_map (m_allocator (snd (FreeExtent e wb x bs)))
          = set_bits False (Start x) (Length x) (block_map (m_allocator bs)))
   \<and> (\<not> CheckBlocksAllocated (m_allocator bs) (Start x) (Start x + Length x) \<longrightarrow>
        FreeExtent e wb x bs = (wb, bs))
   \<and> alloc_inode_count (m_info (snd (PersistNode e wb i bs))) = alloc_inode_count (m_info bs) + 1
   \<and> alloc_inode_count (m_info (snd (FreeNode e wb i bs))) = alloc_inode_count (m_info bs) - 1
   \<and> (blocks_accounted bs \<and> reserved_extent x bs \<longrightarrow>
        blocks_accounted (snd (PersistBlocks e wb x bs)))
   \<and> (blocks_accounted bs \<longrightarrow> blocks_accounted (snd (FreeExtent e wb x bs)))
   \<and> (nodes_accounted bs \<and> i < length (node_map (m_allocator bs))
        \<and> \<not> IsAllocated (node_map (m_allocator bs) ! i)
        \<and> length (node_map (m_allocator bs)) = unat (inode_count (m_info bs)) \<longrightarrow>
        nodes_accounted
          (snd (PersistNode e wb i (bs\<lparr>m_allocator := MarkInodeAllocated i (m_allocator bs)\<rparr>))))
   \<and> (nodes_accounted bs \<and> i < length (node_map (m_allocator bs))
        \<and> IsAllocated (node_map (m_allocator bs) ! i) \<longrightarrow>
        nodes_accounted (snd (FreeNode e wb i bs)))"
  using PersistBlocks_accounted [of x bs e wb] FreeExtent_accounted [of bs e wb x]
        PersistNode_accounted [of bs i e wb] FreeNode_accounted [of bs i e wb]
  by (simp add: PersistBlocks_def FreeExtent_def PersistNode_def FreeNode_def Let_def
        MarkBlocksAllocated_def FreeBlocks_def)


theorem allocation_accounting_witness:
  "blocks_accounted bs0 \<and> reserved_extent \<lparr>Start = 2, Length = 3\<rparr> bs0
   \<and> blocks_accounted (snd (PersistBlocks env0 new_WritebackWork \<lparr>Start = 2, Length = 3\<rparr> bs0))
   \<and> alloc_block_count (m_info (snd (PersistBlocks env0 new_WritebackWork \<lparr>Start = 2, Length = 3\<rparr> bs0))) = 3
   \<and> nodes_accounted bs0 \<and> \<not> IsAllocated (node_map (m_allocator bs0) ! 1)
   \<and> length (node_map (m_allocator bs0)) = unat (inode_count (m_info bs0))
   \<and> nodes_accounted
        (snd (PersistNode env0 new_WritebackWork 1 (bs0\<lparr>m_allocator := MarkInodeAllocated 1 (m_allocator bs0)\<rparr>)))
   \<and> blocks_accounted (bs6 env0) \<and> CheckBlocksAllocated (m_allocator (bs6 env0)) 0 (0 + 7)
   \<and> blocks_accounted (snd (FreeExtent env0 new_WritebackWork \<lparr>Start = 0, Length = 7\<rparr> (bs6 env0)))
   \<and> alloc_block_count (m_info (snd (FreeExtent env0 new_WritebackWork \<lparr>Start = 0, Length = 7\<rparr> (bs6 env0)))) = 0
   \<and> nodes_accounted (bs6 env0) \<and> IsAllocated (node_map (m_allocator (bs6 env0)) ! 0)
   \<and> nodes_accounted (snd (FreeNode env0 new_WritebackWork 0 (bs6 env0)))"
  using allocation_accounting [of env0 new_WritebackWork "\<lparr>Start = 2, Length = 3\<rparr>" bs0 1]
        allocation_accounting [of env0 new_WritebackWork "\<lparr>Start = 0, Length = 7\<rparr>" "bs6 env0" 0]
  unfolding bs6_env0
  by (simp add: step_defs Let_def blocks_accounted_def nodes_accounted_def reserved_extent_def
        popcount_def allocated_nodes_def CheckBlocksAllocated_def FreeExtent_def FreeNode_def
        FreeBlocks_def Allocator_FreeNode_def)



section \<open>C9: a blob that exists is not created again\<close>

lemma LookupBlob_NOT_FOUND:
  "LookupBlob bs key w = Some y \<Longrightarrow>
     (fst y = ZX_OK \<or> fst y = ZX_ERR_NOT_FOUND)
     \<and> (fst y = ZX_ERR_NOT_FOUND \<longrightarrow>
           snd (snd y) = bs \<and> map_of (m_open_hash bs) key = None
           \<and> map_of (m_closed_hash bs) key = None)"
proof (rule LookupBlob.raw_induct
    [where P = "\<lambda>bs key w y. (fst y = ZX_OK \<or> fst y = ZX_ERR_NOT_FOUND)
       \<and> (fst y = ZX_ERR_NOT_FOUND \<longrightarrow>
             snd (snd y) = bs \<and> map_of (m_open_hash bs) key = None
             \<and> map_of (m_closed_hash bs) key = None)"])
  fix f bs key want_out y
  assume IH: "\<And>bs key w y. f bs key w = Some y \<Longrightarrow>
          (fst y = ZX_OK \<or> fst y = ZX_ERR_NOT_FOUND)
          \<and> (fst y = ZX_ERR_NOT_FOUND \<longrightarrow>
                snd (snd y) = bs \<and> map_of (m_open_hash bs) key = None
                \<and> map_of (m_closed_hash bs) key = None)"
    and eq: "(case map_of (m_open_hash bs) key of
        None \<Rightarrow>
          (case VnodeUpgradeLocked bs key of
             (None, bs1) \<Rightarrow> Some (ZX_ERR_NOT_FOUND, None, bs1)
           | (Some vn, bs1) \<Rightarrow>
               if want_out then Some (ZX_OK, Some vn, bs1)
               else Some (ZX_OK, None, release_ref bs1 vn))
      | Some raw_vn \<Rightarrow>
          if ref_count raw_vn = 0 then f bs key want_out
          else if want_out
          then Some (ZX_OK, Some (raw_vn\<lparr>ref_count := ref_count raw_vn + 1\<rparr>),
                 bs\<lparr>m_open_hash := map (\<lambda>kv. if fst kv = key
                                                then (fst kv, raw_vn\<lparr>ref_count := ref_count raw_vn + 1\<rparr>)
                                                else kv) (m_open_hash bs)\<rparr>)
          else Some (ZX_OK, None, bs)) = Some y"
  show "(fst y = ZX_OK \<or> fst y = ZX_ERR_NOT_FOUND)
          \<and> (fst y = ZX_ERR_NOT_FOUND \<longrightarrow>
                snd (snd y) = bs \<and> map_of (m_open_hash bs) key = None
                \<and> map_of (m_closed_hash bs) key = None)"
  proof (cases "map_of (m_open_hash bs) key")
    case None
    with eq show ?thesis
      by (auto simp: VnodeUpgradeLocked_def split: option.splits if_splits)
  next
    case (Some raw_vn)
    show ?thesis
    proof (cases "ref_count raw_vn = 0")
      case True
      with Some eq have "f bs key want_out = Some y" by simp
      from IH [OF this] Some show ?thesis by auto
    next
      case False
      with Some eq show ?thesis by (auto split: if_splits)
    qed
  qed
qed

lemma hash_erase_Cons [simp]:
  "hash_erase k (kv # t) = (if fst kv = k then hash_erase k t else kv # hash_erase k t)"
  by (simp add: hash_erase_def)

lemma hash_erase_absent: "map_of t key = None \<Longrightarrow> hash_erase key t = t"
  by (induction t) (auto simp: hash_erase_def)

lemma map_of_hash_erase: "map_of (hash_erase key t) = (map_of t)(key := None)"
  by (induction t) (auto simp: hash_erase_def)

text \<open>
  C9. When the digest \<open>d\<close> is in the cache, \<open>NewBlob\<close> answers \<open>ZX_ERR_ALREADY_EXISTS\<close> and
  the tables are as before: for an entry of the open table that holds a reference the
  filesystem is unchanged; an entry of the closed table goes to the open table for the
  lookup and comes back when the lookup's reference is released, so the open table is
  unchanged and the closed table maps every digest to the vnode it mapped it to. And
  \<open>NewBlob\<close> answers \<open>ZX_OK\<close>, with a fresh vnode inserted into the open table, only when
  \<open>LookupBlob\<close> answers \<open>ZX_ERR_NOT_FOUND\<close>, that is when \<open>d\<close> is in neither table.
\<close>

theorem NewBlob_existing:
  "(map_of (m_open_hash bs) d = Some vn \<and> 0 < ref_count vn \<longrightarrow>
      NewBlob e bs d = Some (ZX_ERR_ALREADY_EXISTS, None, bs))
   \<and> (map_of (m_open_hash bs) d = None \<and> map_of (m_closed_hash bs) d = Some vn
        \<and> m_digest vn = d \<and> ref_count vn = 1 \<and> GetState vn \<noteq> kBlobStatePurged
        \<and> (m_cache_policy bs = EvictImmediately \<longrightarrow> m_mapping vn = None) \<longrightarrow>
      NewBlob e bs d
        = Some (ZX_ERR_ALREADY_EXISTS, None, bs\<lparr>m_closed_hash := (d, vn) # hash_erase d (m_closed_hash bs)\<rparr>)
      \<and> map_of ((d, vn) # hash_erase d (m_closed_hash bs)) = map_of (m_closed_hash bs))
   \<and> (\<forall>out bs'. NewBlob e bs d = Some (ZX_OK, out, bs') \<longrightarrow>
        LookupBlob bs d False = Some (ZX_ERR_NOT_FOUND, None, bs)
        \<and> map_of (m_open_hash bs) d = None \<and> map_of (m_closed_hash bs) d = None
        \<and> out = Some (new_VnodeBlob_of d)
        \<and> bs' = bs\<lparr>m_open_hash := hash_insert (new_VnodeBlob_of d) (m_open_hash bs)\<rparr>)"
proof (intro conjI impI allI)
  assume "map_of (m_open_hash bs) d = Some vn \<and> 0 < ref_count vn"
  then have "LookupBlob bs d False = Some (ZX_OK, None, bs)"
    by (subst LookupBlob.simps) simp
  then show "NewBlob e bs d = Some (ZX_ERR_ALREADY_EXISTS, None, bs)"
    by (simp add: NewBlob_def)
next
  assume h: "map_of (m_open_hash bs) d = None \<and> map_of (m_closed_hash bs) d = Some vn
        \<and> m_digest vn = d \<and> ref_count vn = 1 \<and> GetState vn \<noteq> kBlobStatePurged
        \<and> (m_cache_policy bs = EvictImmediately \<longrightarrow> m_mapping vn = None)"
  then have td: "m_cache_policy bs = EvictImmediately \<Longrightarrow> TearDown vn = vn"
    by (simp add: TearDown_def)
  from h have rc: "vn\<lparr>ref_count := Suc 0\<rparr> = vn" by simp
  from h have "LookupBlob bs d False
      = Some (ZX_OK, None, bs\<lparr>m_closed_hash := (d, vn) # hash_erase d (m_closed_hash bs)\<rparr>)"
    by (subst LookupBlob.simps)
       (auto simp: VnodeUpgradeLocked_def release_ref_def VnodeReleaseSoft_def
          VnodeInsertClosedLocked_def hash_insert_def hash_erase_absent map_of_hash_erase td rc
          split: CachePolicy.splits)
  then show "NewBlob e bs d
        = Some (ZX_ERR_ALREADY_EXISTS, None, bs\<lparr>m_closed_hash := (d, vn) # hash_erase d (m_closed_hash bs)\<rparr>)"
    by (simp add: NewBlob_def)
  from h show "map_of ((d, vn) # hash_erase d (m_closed_hash bs)) = map_of (m_closed_hash bs)"
    by (auto simp: map_of_hash_erase fun_eq_iff)
next
  fix out bs'
  assume ok: "NewBlob e bs d = Some (ZX_OK, out, bs')"
  then obtain v bs1 where l: "LookupBlob bs d False = Some (ZX_ERR_NOT_FOUND, v, bs1)"
    by (auto simp: NewBlob_def split: option.splits prod.splits if_splits)
  from LookupBlob_NOT_FOUND [OF l]
  have nf: "bs1 = bs \<and> map_of (m_open_hash bs) d = None \<and> map_of (m_closed_hash bs) d = None"
    by simp
  then have l': "LookupBlob bs d False = Some (ZX_ERR_NOT_FOUND, None, bs)"
    by (subst LookupBlob.simps) (simp add: VnodeUpgradeLocked_def)
  with ok nf show "LookupBlob bs d False = Some (ZX_ERR_NOT_FOUND, None, bs)"
    "map_of (m_open_hash bs) d = None" "map_of (m_closed_hash bs) d = None"
    "out = Some (new_VnodeBlob_of d)"
    "bs' = bs\<lparr>m_open_hash := hash_insert (new_VnodeBlob_of d) (m_open_hash bs)\<rparr>"
    by (auto simp: NewBlob_def split: if_splits)
qed


theorem NewBlob_existing_witness:
  "map_of (m_open_hash bs6_open) data6 = Some (reader6 env0) \<and> 0 < ref_count (reader6 env0)
   \<and> NewBlob env0 bs6_open data6 = Some (ZX_ERR_ALREADY_EXISTS, None, bs6_open)
   \<and> map_of (m_open_hash bs6_closed) data6 = None
   \<and> map_of (m_closed_hash bs6_closed) data6 = Some (closed6 env0)
   \<and> GetState (closed6 env0) = kBlobStateReadable
   \<and> NewBlob env0 bs6_closed data6 = Some (ZX_ERR_ALREADY_EXISTS, None, bs6_closed)
   \<and> LookupBlob bs0 data6 False = Some (ZX_ERR_NOT_FOUND, None, bs0)
   \<and> NewBlob env0 bs0 data6
       = Some (ZX_OK, Some (new_VnodeBlob_of data6),
               bs0\<lparr>m_open_hash := [(data6, new_VnodeBlob_of data6)]\<rparr>)"
  using NewBlob_existing [of bs6_open data6 "reader6 env0" env0]
        NewBlob_existing [of bs6_closed data6 "closed6 env0" env0]
        NewBlob_existing [of bs0 data6 "closed6 env0" env0]
  unfolding bs6_closed_def bs6_open_def bs6_env0 reader6_env0 closed6_env0
  by (simp add: step_defs Let_def NewBlob_def LookupBlob.simps
        VnodeUpgradeLocked_def hash_insert_def release_ref_def VnodeReleaseSoft_def
        VnodeInsertClosedLocked_def hash_erase_def)


end
